theory Spec2Isabelle
  imports Complex_Main
begin

section \<open>Synchronised multi-detector acquisition (odemis, acq/stream/\_sync.py)\<close>

text \<open>
  A shallow embedding of the parts of \<^verbatim>\<open>_sync.py\<close> that the properties below are
  about. Python floats are modelled as HOL reals (so every equation between floats is an
  equation of exact arithmetic), Python ints as \<open>int\<close>, exceptions as the left summand
  of a sum type. The module uses \<^verbatim>\<open>from __future__ import division\<close>: every \<^verbatim>\<open>/\<close>
  is true division, and dividing by zero raises \<^verbatim>\<open>ZeroDivisionError\<close>.
\<close>

subsection \<open>Exceptions and data arrays\<close>

datatype py_error =
    IndexError | KeyError | ZeroDivisionError | ValueError | AssertionError
  | IOError | TimeoutError | CancelledError

text \<open>
  A \<^verbatim>\<open>model.DataArray\<close>: a numeric buffer (its shape and its values in row-major
  order) with the metadata keys the engine reads: \<^verbatim>\<open>MD_POS\<close>, \<^verbatim>\<open>MD_PIXEL_SIZE\<close>,
  \<^verbatim>\<open>MD_ACQ_DATE\<close>, \<^verbatim>\<open>MD_DWELL_TIME\<close>. A key that is absent is \<open>None\<close>.
\<close>

record dataarray =
  da_shape :: "nat list"
  da_values :: "int list"
  md_pos :: "(real \<times> real) option"
  md_pxs :: "(real \<times> real) option"
  md_acq_date :: "real option"
  md_dwell :: "real option"

text \<open>
  The values of the VAs read by the geometry functions: \<^verbatim>\<open>self.roi.value\<close>,
  \<^verbatim>\<open>self.repetition.value\<close>, \<^verbatim>\<open>self._emitter.shape\<close> and
  \<^verbatim>\<open>self._emitter.pixelSize.value\<close>.
\<close>

record geometry =
  g_roi :: "real \<times> real \<times> real \<times> real"
  g_rep :: "int \<times> int"
  g_eshape :: "int \<times> int"
  g_epxs :: "real \<times> real"

subsection \<open>Pixel size (\_getPixelSize)\<close>

text \<open>
  \<^verbatim>\<open>
  epxs = self._emitter.pixelSize.value
  rep = self.repetition.value
  roi = self.roi.value
  eshape = self._emitter.shape
  phy_size_x = (roi[2] - roi[0]) * epxs[0] * eshape[0]
  phy_size_y = (roi[3] - roi[1]) * epxs[1] * eshape[1]
  pxsy = phy_size_y / rep[1]
  logging.debug("pxs guessed = %s, %s", pxsy, phy_size_x / rep[0])
  return phy_size_x / rep[0]
  \<close>
\<close>

definition getPixelSize :: "geometry \<Rightarrow> py_error + real" where
  "getPixelSize g =
     (case g_roi g of (l, t, r, b) \<Rightarrow>
      let phy_size_x = (r - l) * fst (g_epxs g) * real_of_int (fst (g_eshape g));
          phy_size_y = (b - t) * snd (g_epxs g) * real_of_int (snd (g_eshape g))
      in if snd (g_rep g) = 0 then Inl ZeroDivisionError
         else if fst (g_rep g) = 0 then Inl ZeroDivisionError
         else Inr (phy_size_x / real_of_int (fst (g_rep g))))"

subsection \<open>Centre and pixel size of the assembled data (\_get\_center\_pxs)\<close>

text \<open>Python's \<^verbatim>\<open>xs[-k]\<close> for \<open>k \<ge> 1\<close>: the k-th element from the end, or IndexError.\<close>

definition from_end :: "'a list \<Rightarrow> nat \<Rightarrow> py_error + 'a" where
  "from_end xs k =
     (if 1 \<le> k \<and> k \<le> length xs then Inr (xs ! (length xs - k)) else Inl IndexError)"

text \<open>
  The centre of the top-left pixel of the first data array:
  \<^verbatim>\<open>
  center_tl = datatl.metadata[MD_POS]
  dpxs = datatl.metadata[MD_PIXEL_SIZE]
  tl = (center_tl[0] - (dpxs[0] * (datatl.shape[-1] - 1)) / 2,
        center_tl[1] + (dpxs[1] * (datatl.shape[-2] - 1)) / 2)
  \<close>
\<close>

definition top_left :: "dataarray \<Rightarrow> py_error + (real \<times> real)" where
  "top_left datatl =
     (case md_pos datatl of None \<Rightarrow> Inl KeyError | Some center_tl \<Rightarrow>
      case md_pxs datatl of None \<Rightarrow> Inl KeyError | Some dpxs \<Rightarrow>
      case from_end (da_shape datatl) 1 of Inl e \<Rightarrow> Inl e | Inr s1 \<Rightarrow>
      case from_end (da_shape datatl) 2 of Inl e \<Rightarrow> Inl e | Inr s2 \<Rightarrow>
        Inr (fst center_tl - (fst dpxs * (real s1 - 1)) / 2,
             snd center_tl + (snd dpxs * (real s2 - 1)) / 2))"

text \<open>
  \<^verbatim>\<open>
  pxsx = self._getPixelSize()
  pxs = pxsx / sub_shape[0], pxsx / sub_shape[1]
  trep = rep[0] * sub_shape[0], rep[1] * sub_shape[1]
  center = (tl[0] + (pxs[0] * (trep[0] - 1)) / 2,
            tl[1] - (pxs[1] * (trep[1] - 1)) / 2)
  ...
  return center, pxs
  \<close>
  The comparison of \<open>pxs\<close> with \<open>dpxs\<close> that follows only logs a warning.
\<close>

definition get_center_pxs ::
  "geometry \<Rightarrow> int \<times> int \<Rightarrow> int \<times> int \<Rightarrow> dataarray
     \<Rightarrow> py_error + ((real \<times> real) \<times> (real \<times> real))" where
  "get_center_pxs g rep sub_shape datatl =
     (case top_left datatl of Inl e \<Rightarrow> Inl e | Inr tl0 \<Rightarrow>
      case getPixelSize g of Inl e \<Rightarrow> Inl e | Inr pxsx \<Rightarrow>
      if fst sub_shape = 0 \<or> snd sub_shape = 0 then Inl ZeroDivisionError
      else
        let pxs = (pxsx / real_of_int (fst sub_shape), pxsx / real_of_int (snd sub_shape));
            trep = (fst rep * fst sub_shape, snd rep * snd sub_shape);
            center = (fst tl0 + (fst pxs * (real_of_int (fst trep) - 1)) / 2,
                      snd tl0 - (snd pxs * (real_of_int (snd trep) - 1)) / 2)
        in Inr (center, pxs))"

subsection \<open>Assembling the received data (\_assemble2DData, \_assembleTiles)\<close>

text \<open>
  \<^verbatim>\<open>
  assert len(data_list) > 0
  if data_list[0].shape == (0,):
      ...
      return data_list[0]
  md = data_list[0].metadata.copy()
  center, pxs = self._get_center_pxs(rep, (1, 1), data_list[0])
  md.update({MD_POS: center, MD_PIXEL_SIZE: pxs})
  flat_list = [ar.flatten() for ar in data_list]
  main_data = numpy.concatenate(flat_list)
  main_data.shape = rep[::-1]
  main_data = model.DataArray(main_data, metadata=md)
  return main_data
  \<close>
  Assigning a shape whose size is not the number of values raises \<^verbatim>\<open>ValueError\<close>
  (\<open>rep\<close> is the value of a resolution VA, a pair of positive ints: numpy's inferred
  dimension \<open>-1\<close> is not modelled and counts as a wrong shape).
\<close>

definition assemble2DData :: "geometry \<Rightarrow> int \<times> int \<Rightarrow> dataarray list \<Rightarrow> py_error + dataarray" where
  "assemble2DData g rep data_list =
     (case data_list of [] \<Rightarrow> Inl AssertionError | d0 # _ \<Rightarrow>
      if da_shape d0 = [0] then Inr d0
      else
        case get_center_pxs g rep (1, 1) d0 of Inl e \<Rightarrow> Inl e | Inr (center, pxs) \<Rightarrow>
        let main_data = concat (map da_values data_list)
        in if 0 \<le> fst rep \<and> 0 \<le> snd rep \<and> int (length main_data) = snd rep * fst rep
           then Inr (d0\<lparr>da_shape := [nat (snd rep), nat (fst rep)], da_values := main_data,
                        md_pos := Some center, md_pxs := Some pxs\<rparr>)
           else Inl ValueError)"

text \<open>
  \<^verbatim>\<open>
  T, S = data_list[0].shape
  X, Y = rep
  arr = numpy.array(data_list)
  if T == 1 and S == 1:
      arr.shape = rep[::-1]
  else:
      arr.shape = (Y, X, T, S)
      arr = numpy.rollaxis(arr, 2, 1)
      arr = numpy.ascontiguousarray(arr)
      arr.shape = (Y * T, X * S)
  md = data_list[0].metadata.copy()
  center, pxs = self._get_center_pxs(rep, (T, S), data_list[0])
  md.update({MD_POS: center, MD_PIXEL_SIZE: pxs})
  return model.DataArray(arr, md)
  \<close>
  Row \<open>t\<close> of a \<open>T \<times> S\<close> tile is \<open>tile_row S t\<close> of its values; the assembled image
  has, for each tile row \<open>y\<close> and each \<open>t\<close>, the rows \<open>t\<close> of the tiles
  \<open>y * X, \<dots>, y * X + X - 1\<close> one after the other. The tiles must all have the shape of
  the first one and be \<open>Y * X\<close> in number for the reshape to succeed.
\<close>

definition tile_row :: "nat \<Rightarrow> nat \<Rightarrow> dataarray \<Rightarrow> int list" where
  "tile_row S t d = take S (drop (t * S) (da_values d))"

definition tile_values :: "nat \<Rightarrow> nat \<Rightarrow> nat \<Rightarrow> nat \<Rightarrow> dataarray list \<Rightarrow> int list" where
  "tile_values X Y T S data_list =
     concat (map (\<lambda>y. concat (map (\<lambda>t. concat (map (\<lambda>x. tile_row S t (data_list ! (y * X + x)))
                                                 [0..<X]))
                                   [0..<T]))
                 [0..<Y])"

definition assembleTiles :: "geometry \<Rightarrow> int \<times> int \<Rightarrow> dataarray list \<Rightarrow> py_error + dataarray" where
  "assembleTiles g rep data_list =
     (case data_list of [] \<Rightarrow> Inl IndexError | d0 # _ \<Rightarrow>
      case da_shape d0 of
        [T, S] \<Rightarrow>
          if 0 \<le> fst rep \<and> 0 \<le> snd rep \<and> int (length data_list) = snd rep * fst rep
             \<and> (\<forall>d \<in> set data_list. da_shape d = [T, S])
          then
            case get_center_pxs g rep (int T, int S) d0 of Inl e \<Rightarrow> Inl e | Inr (center, pxs) \<Rightarrow>
              Inr (d0\<lparr>da_shape := [nat (snd rep) * T, nat (fst rep) * S],
                      da_values := tile_values (nat (fst rep)) (nat (snd rep)) T S data_list,
                      md_pos := Some center, md_pxs := Some pxs\<rparr>)
          else Inl ValueError
      | _ \<Rightarrow> Inl ValueError)"

subsection \<open>Progress estimation (\_updateProgress)\<close>

text \<open>
  The part of the engine's state that \<^verbatim>\<open>_updateProgress\<close> touches: the running sum
  \<^verbatim>\<open>self._prog_sum\<close> and the estimated end time held by the future. \<open>now\<close> is the
  value \<^verbatim>\<open>time.time()\<close> returns inside the call.
  \<^verbatim>\<open>
  if current <= 1:
      return
  self._prog_sum += dur
  ratio = (tot - current) / (current - 1)
  left = self._prog_sum * ratio
  time_assemble = 0.001 * tot
  tot_left = left + time_assemble + bonus + 0.1
  future.set_progress(end=time.time() + tot_left)
  \<close>
\<close>

record progress =
  prog_sum :: real
  future_end :: real

definition updateProgress :: "real \<Rightarrow> real \<Rightarrow> int \<Rightarrow> int \<Rightarrow> real \<Rightarrow> progress \<Rightarrow> progress" where
  "updateProgress now dur current tot bonus p =
     (if current \<le> 1 then p
      else
        let s = prog_sum p + dur;
            ratio = real_of_int (tot - current) / real_of_int (current - 1);
            left = s * ratio;
            time_assemble = 0.001 * real_of_int tot;
            tot_left = left + time_assemble + bonus + 0.1
        in p\<lparr>prog_sum := s, future_end := now + tot_left\<rparr>)"

text \<open>
  The worker calls \<^verbatim>\<open>_updateProgress\<close> once per acquired pixel, with
  \<open>current = 1, 2, \<dots>\<close>: \<open>run_updates\<close> replays these calls for a list of
  (clock reading, pixel duration, leech bonus), starting at pixel number \<open>k\<close>.
\<close>

fun run_updates :: "int \<Rightarrow> int \<Rightarrow> (real \<times> real \<times> real) list \<Rightarrow> progress \<Rightarrow> progress" where
  "run_updates k tot [] p = p"
| "run_updates k tot ((now, dur, bonus) # us) p =
     run_updates (k + 1) tot us (updateProgress now dur k tot bonus p)"

subsection \<open>The pixel size of the specification\<close>

text \<open>
  The pixel size as the specification words it: the width of the ROI times the field of
  view of the emitter (its shape times its pixel size) over the repetition, along X and
  along Y.
\<close>

definition spec_pixel_size_x :: "geometry \<Rightarrow> real" where
  "spec_pixel_size_x g = (case g_roi g of (l, t, r, b) \<Rightarrow>
     (r - l) * (real_of_int (fst (g_eshape g)) * fst (g_epxs g)) / real_of_int (fst (g_rep g)))"

definition spec_pixel_size_y :: "geometry \<Rightarrow> real" where
  "spec_pixel_size_y g = (case g_roi g of (l, t, r, b) \<Rightarrow>
     (b - t) * (real_of_int (snd (g_eshape g)) * snd (g_epxs g)) / real_of_int (snd (g_rep g)))"

subsection \<open>Beam positions (\_getSpotPositions)\<close>

text \<open>
  \<^verbatim>\<open>numpy.linspace(start, stop, num)\<close>: \<open>num\<close> evenly spaced samples over the closed
  interval, \<open>start + i * ((stop - start) / (num - 1))\<close>; a single sample is \<open>start\<close>.
\<close>

definition linspace :: "real \<Rightarrow> real \<Rightarrow> nat \<Rightarrow> real list" where
  "linspace start stop num =
     (if num = 1 then [start]
      else map (\<lambda>i. start + real i * ((stop - start) / real (num - 1))) [0..<num])"

text \<open>
  \<^verbatim>\<open>
  rep = tuple(self.repetition.value)
  roi = self.roi.value
  width = (roi[2] - roi[0], roi[3] - roi[1])
  pxs = (width[0] / rep[0], width[1] / rep[1])
  lim = (roi[0] + pxs[0] / 2, roi[1] + pxs[1] / 2,
         roi[2] - pxs[0] / 2, roi[3] - pxs[1] / 2)
  shape = self._emitter.shape
  lim_main = (shape[0] * (lim[0] - 0.5), shape[1] * (lim[1] - 0.5),
              shape[0] * (lim[2] - 0.5), shape[1] * (lim[3] - 0.5))
  pos = numpy.empty((rep[1], rep[0], 2), dtype=numpy.float)
  posy = pos[:, :, 1].swapaxes(0, 1)
  posy[:, :] = numpy.linspace(lim_main[1], lim_main[3], rep[1])
  pos[:, :, 0] = numpy.linspace(lim_main[0], lim_main[2], rep[0])
  return pos
  \<close>
  The array of shape \<open>(rep[1], rep[0], 2)\<close> is a list of \<open>rep[1]\<close> rows of \<open>rep[0]\<close>
  pairs: \<open>pos[iy, ix] = (x, y)\<close>. The two assignments broadcast the X samples along
  the rows and the Y samples along the columns. \<^verbatim>\<open>numpy.empty\<close> raises
  \<^verbatim>\<open>ValueError\<close> on a negative dimension.
\<close>

definition getSpotPositions :: "geometry \<Rightarrow> py_error + (real \<times> real) list list" where
  "getSpotPositions g =
     (case g_roi g of (l, t, r, b) \<Rightarrow>
      let rep = g_rep g;
          width = (r - l, b - t)
      in if fst rep = 0 \<or> snd rep = 0 then Inl ZeroDivisionError
         else
           let pxs = (fst width / real_of_int (fst rep), snd width / real_of_int (snd rep));
               lim = (l + fst pxs / 2, t + snd pxs / 2, r - fst pxs / 2, b - snd pxs / 2);
               shape = g_eshape g;
               lim_main = (case lim of (lim0, lim1, lim2, lim3) \<Rightarrow>
                             (real_of_int (fst shape) * (lim0 - 0.5),
                              real_of_int (snd shape) * (lim1 - 0.5),
                              real_of_int (fst shape) * (lim2 - 0.5),
                              real_of_int (snd shape) * (lim3 - 0.5)))
           in if fst rep < 0 \<or> snd rep < 0 then Inl ValueError
              else
                case lim_main of (m0, m1, m2, m3) \<Rightarrow>
                  let ys = linspace m1 m3 (nat (snd rep));
                      xs = linspace m0 m2 (nat (fst rep))
                  in Inr (map (\<lambda>y. map (\<lambda>x. (x, y)) xs) ys))"

subsection \<open>Pixel centres of the specification\<close>

text \<open>
  The fractional coordinate of the centre of pixel \<open>i\<close> of \<open>n\<close> over the interval from
  \<open>lo\<close> to \<open>hi\<close>: the pixels are \<open>(hi - lo) / n\<close> wide, and the centre of pixel \<open>i\<close>
  is \<open>i\<close> and a half widths from \<open>lo\<close>.
\<close>

definition pixel_centre :: "real \<Rightarrow> real \<Rightarrow> int \<Rightarrow> nat \<Rightarrow> real" where
  "pixel_centre lo hi n i = lo + ((hi - lo) / real_of_int n) * (real i + 1 / 2)"

subsection \<open>The state of the engine\<close>

text \<open>
  The attributes of a \<^verbatim>\<open>MultipleDetectorStream\<close> that the data callback, the canceller
  and the worker read and write, and what they do to the hardware: for each stream (in the
  order of \<^verbatim>\<open>self._streams\<close>) its completion event, its accumulator, whether the
  engine's subscriber is subscribed to its dataflow and whether its dataflow is
  synchronised on the software trigger. Calls that only block or log are counted:
  \<open>slept\<close> lists the arguments of \<^verbatim>\<open>time.sleep\<close>, \<open>done_waits\<close> the timeouts of
  \<^verbatim>\<open>self._acq_done.wait\<close>, \<open>notified\<close> counts \<^verbatim>\<open>self._trigger.notify()\<close> and
  \<open>warnings\<close> the calls of \<^verbatim>\<open>logging.warning\<close>. \<open>stage_moves\<close> lists the targets of
  the moves asked of the scan stage (an axis left out of the move is \<open>None\<close>) and
  \<open>stage_position\<close> is where the stage is.
\<close>

datatype acq_status = RUNNING | CANCELLED | FINISHED

record engine =
  acq_state :: acq_status
  acq_complete :: "bool list"
  acq_data :: "dataarray list list"
  acq_min_date :: "real option"
  acq_done :: bool
  subscribed :: "bool list"
  synchronized :: "bool list"
  raw :: "dataarray list"
  prog :: progress
  translation :: "real \<times> real"
  stage_position :: "real \<times> real"
  stage_moves :: "(real option \<times> real option) list"
  slept :: "real list"
  done_waits :: "real list"
  notified :: nat
  warnings :: nat

subsection \<open>The data callback (\_onData)\<close>

text \<open>
  \<^verbatim>\<open>
  def _onData(self, n, df, data):
      s = self._streams[n]
      if self._acq_min_date > data.metadata.get(model.MD_ACQ_DATE, 0):
          logging.warning("Dropping data because it started %g s too early", ...)
          # self._trigger.notify()
          return
      if not self._acq_complete[n].is_set():
          self._acq_data[n].append(data)
          self._acq_complete[n].set()
  \<close>
  Before the first pixel \<^verbatim>\<open>self._acq_min_date\<close> is \<^verbatim>\<open>None\<close>, which Python 2 orders
  below every number: the comparison is then false.
\<close>

definition too_early :: "engine \<Rightarrow> dataarray \<Rightarrow> bool" where
  "too_early st data =
     (case acq_min_date st of None \<Rightarrow> False
      | Some m \<Rightarrow> m > (case md_acq_date data of None \<Rightarrow> 0 | Some d \<Rightarrow> d))"

definition onData :: "nat \<Rightarrow> dataarray \<Rightarrow> engine \<Rightarrow> py_error + engine" where
  "onData n data st =
     (if length (acq_complete st) \<le> n \<or> length (acq_data st) \<le> n then Inl IndexError
      else if too_early st data
      then Inr (st\<lparr>warnings := warnings st + 1\<rparr>)
      else if \<not> acq_complete st ! n
      then Inr (st\<lparr>acq_data := (acq_data st)[n := acq_data st ! n @ [data]],
                   acq_complete := (acq_complete st)[n := True]\<rparr>)
      else Inr st)"

subsection \<open>Cancellation (\_cancelAcquisition)\<close>

text \<open>
  \<^verbatim>\<open>
  def _cancelAcquisition(self, future):
      with self._acq_lock:
          if self._acq_state == FINISHED:
              return False  # too late
          self._acq_state = CANCELLED
      ...
      for s, sub in zip(self._streams, self._subscribers):
          s._dataflow.unsubscribe(sub)
      self._df0.synchronizedOn(None)
      for i in range(len(self._streams)):
          self._acq_complete[i].set()
      self._acq_done.wait(5)
      return True
  \<close>
  \<^verbatim>\<open>self._df0\<close> is the dataflow of the first stream, \<^verbatim>\<open>streams[0]\<close>.
\<close>

definition cancelAcquisition :: "engine \<Rightarrow> engine \<times> bool" where
  "cancelAcquisition st =
     (if acq_state st = FINISHED then (st, False)
      else (st\<lparr>acq_state := CANCELLED,
                subscribed := map (\<lambda>_. False) (subscribed st),
                synchronized := (synchronized st)[0 := False],
                acq_complete := map (\<lambda>_. True) (acq_complete st),
                done_waits := done_waits st @ [5]\<rparr>, True))"

subsection \<open>What happens around the worker\<close>

text \<open>
  While the worker sleeps or waits, the dataflows call \<^verbatim>\<open>_onData\<close> and the user may
  cancel. An exception raised by \<^verbatim>\<open>_onData\<close> goes to the thread of the dataflow and
  leaves the engine as it was.
\<close>

datatype env_event = Data nat dataarray | Cancel

fun apply_event :: "env_event \<Rightarrow> engine \<Rightarrow> engine" where
  "apply_event (Data n d) st = (case onData n d st of Inl _ \<Rightarrow> st | Inr st' \<Rightarrow> st')"
| "apply_event Cancel st = fst (cancelAcquisition st)"

definition run_events :: "env_event list \<Rightarrow> engine \<Rightarrow> engine" where
  "run_events evs st = fold apply_event evs st"

subsection \<open>The time-correlator stream (ScannedRemoteTCStream)\<close>

text \<open>
  \<^verbatim>\<open>
  def _computeROISettings(self, roi):
      center = ((roi[0] + roi[2]) / 2, (roi[1] + roi[3]) / 2)
      width = (roi[2] - roi[0], roi[3] - roi[1])
      shape = self._scanner.shape
      trans = (shape[0] * (center[0] - 0.5), shape[1] * (center[1] - 0.5))
      res = self.repetition.value
      scale = (width[0] * shape[0] / res[0], width[1] * shape[1] / res[1])
      return scale, res, trans
  \<close>
  The geometry record holds here the ROI, the repetition and the shape of the scanner.
\<close>

definition computeROISettings ::
  "geometry \<Rightarrow> py_error + ((real \<times> real) \<times> (int \<times> int) \<times> (real \<times> real))" where
  "computeROISettings g =
     (case g_roi g of (l, t, r, b) \<Rightarrow>
      let center = ((l + r) / 2, (t + b) / 2);
          width = (r - l, b - t);
          shape = g_eshape g;
          transl = (real_of_int (fst shape) * (fst center - 0.5),
                   real_of_int (snd shape) * (snd center - 0.5));
          res = g_rep g
      in if fst res = 0 \<or> snd res = 0 then Inl ZeroDivisionError
         else Inr ((fst width * real_of_int (fst shape) / real_of_int (fst res),
                    snd width * real_of_int (snd shape) / real_of_int (snd res)), res, transl))"

text \<open>
  The settings of the scanner and of the time-correlator scanner that
  \<^verbatim>\<open>_prepareHardware\<close> writes. A dwell time written to the scanner is set by the device
  to what it is capable of: \<open>accept\<close> gives the value the VA holds after a value is
  assigned to it.
  \<^verbatim>\<open>
  scale, res, trans = self._computeROISettings(self._stream.roi.value)
  self._scanner.scale.value = scale
  self._scanner.resolution.value = res
  self._scanner.translation.value = trans
  px_dt = min(self._dwellTime.value, self._scanner.dwellTime.range[1])
  self._scanner.dwellTime.value = px_dt
  px_dt = self._scanner.dwellTime.value
  nfr = int(math.ceil(self._dwellTime.value / px_dt))  # number of frames
  px_dt = self._dwellTime.value / nfr
  self._scanner.dwellTime.value = px_dt
  self._tc_scanner.dwellTime.value = self._dwellTime.value
  return px_dt, nfr
  \<close>
\<close>

record tc_hardware =
  scanner_scale :: "real \<times> real"
  scanner_resolution :: "int \<times> int"
  scanner_translation :: "real \<times> real"
  scanner_dwellTime :: real
  tc_scanner_dwellTime :: real

definition prepareHardware ::
  "geometry \<Rightarrow> real \<Rightarrow> real \<Rightarrow> (real \<Rightarrow> real) \<Rightarrow> tc_hardware
     \<Rightarrow> py_error + ((real \<times> int) \<times> tc_hardware)" where
  "prepareHardware g dwellTime dwell_max accept hw =
     (case computeROISettings g of Inl e \<Rightarrow> Inl e | Inr (scale, res, transl) \<Rightarrow>
      let hw1 = hw\<lparr>scanner_scale := scale, scanner_resolution := res,
                    scanner_translation := transl\<rparr>;
          px_dt0 = min dwellTime dwell_max;
          hw2 = hw1\<lparr>scanner_dwellTime := accept px_dt0\<rparr>;
          px_dt1 = scanner_dwellTime hw2
      in if px_dt1 = 0 then Inl ZeroDivisionError
         else
           let nfr = \<lceil>dwellTime / px_dt1\<rceil>
           in if nfr = 0 then Inl ZeroDivisionError
              else
                let px_dt = dwellTime / real_of_int nfr;
                    hw3 = hw2\<lparr>scanner_dwellTime := accept px_dt\<rparr>;
                    hw4 = hw3\<lparr>tc_scanner_dwellTime := dwellTime\<rparr>
                in Inr ((px_dt, nfr), hw4))"

text \<open>
  The frame thread takes the frames out of the queue, in the order \<^verbatim>\<open>_onNewData\<close> put
  them, until the acquisition is done and the queue is empty.
  \<^verbatim>\<open>
  if self._new_acquisition:
      data = data.astype(numpy.uint32)
      self.raw = [data]
      self._new_acquisition = False
      ...
  else:
      if self.raw[0].shape == data.shape:
          data = data.astype(numpy.uint32)
          self.raw[0] += data
          self.raw[0].metadata[MD_DWELL_TIME] += data.metadata[MD_DWELL_TIME]
      else:
          logging.error("New data array from tc-detector has different shape ...")
      ...
  \<close>
  \<^verbatim>\<open>astype(numpy.uint32)\<close> keeps the metadata and reduces each value modulo \<open>2^32\<close>;
  the sum of two uint32 arrays wraps around.
\<close>

definition astype_uint32 :: "dataarray \<Rightarrow> dataarray" where
  "astype_uint32 d = d\<lparr>da_values := map (\<lambda>v. v mod 2 ^ 32) (da_values d)\<rparr>"

definition add_uint32 :: "int list \<Rightarrow> int list \<Rightarrow> int list" where
  "add_uint32 xs ys = map (\<lambda>(a, b). (a + b) mod 2 ^ 32) (zip xs ys)"

record tc_stream =
  tc_raw :: "dataarray list"
  new_acquisition :: bool
  tc_errors :: nat

definition frame_step :: "dataarray \<Rightarrow> tc_stream \<Rightarrow> py_error + tc_stream" where
  "frame_step data st =
     (if new_acquisition st
      then Inr (st\<lparr>tc_raw := [astype_uint32 data], new_acquisition := False\<rparr>)
      else
        case tc_raw st of [] \<Rightarrow> Inl IndexError | r0 # rest \<Rightarrow>
          if da_shape r0 = da_shape data
          then
            case md_dwell r0 of None \<Rightarrow> Inl KeyError | Some a \<Rightarrow>
            case md_dwell data of None \<Rightarrow> Inl KeyError | Some b \<Rightarrow>
              Inr (st\<lparr>tc_raw :=
                        r0\<lparr>da_values := add_uint32 (da_values r0) (da_values (astype_uint32 data)),
                           md_dwell := Some (a + b)\<rparr> # rest\<rparr>)
          else Inr (st\<lparr>tc_errors := tc_errors st + 1\<rparr>))"

fun frameThread :: "dataarray list \<Rightarrow> tc_stream \<Rightarrow> py_error + tc_stream" where
  "frameThread [] st = Inr st"
| "frameThread (data # queue) st =
     (case frame_step data st of Inl e \<Rightarrow> Inl e | Inr st' \<Rightarrow> frameThread queue st')"

subsection \<open>Stage positions (\_getScanStagePositions)\<close>

text \<open>
  The box the stage has to cover, \<^verbatim>\<open>lim_main\<close>, for a stage at \<open>spos\<close>:
  \<^verbatim>\<open>
  width = (roi[2] - roi[0], roi[3] - roi[1])
  pxs = (width[0] / repetition[0], width[1] / repetition[1])
  lim = (roi[0] + pxs[0] / 2, roi[1] + pxs[1] / 2,
         roi[2] - pxs[0] / 2, roi[3] - pxs[1] / 2)
  shape = self._emitter.shape
  sem_pxs = self._emitter.pixelSize.value
  sem_fov = shape[0] * sem_pxs[0], shape[1] * sem_pxs[1]
  ...
  phy_shift = sem_fov[0] * (0.5 - lim[0]), -sem_fov[1] * (0.5 - lim[1])  # Y is opposite dir
  phy_width = sem_fov[0] * (lim[2] - lim[0]), sem_fov[1] * (lim[3] - lim[1])
  spos0 = spos["x"] - phy_shift[0], spos["y"] - phy_shift[1]
  lim_main = (spos0[0], spos0[1],
              spos0[0] + phy_width[0], spos0[1] - phy_width[1])
  \<close>
\<close>

definition scan_stage_box :: "geometry \<Rightarrow> real \<times> real \<Rightarrow> real \<times> real \<times> real \<times> real" where
  "scan_stage_box g spos =
     (case g_roi g of (l, t, r, b) \<Rightarrow>
      let repetition = g_rep g;
          width = (r - l, b - t);
          pxs = (fst width / real_of_int (fst repetition), snd width / real_of_int (snd repetition));
          lim0 = l + fst pxs / 2; lim1 = t + snd pxs / 2;
          lim2 = r - fst pxs / 2; lim3 = b - snd pxs / 2;
          shape = g_eshape g;
          sem_pxs = g_epxs g;
          sem_fov = (real_of_int (fst shape) * fst sem_pxs, real_of_int (snd shape) * snd sem_pxs);
          phy_shift = (fst sem_fov * (0.5 - lim0), - snd sem_fov * (0.5 - lim1));
          phy_width = (fst sem_fov * (lim2 - lim0), snd sem_fov * (lim3 - lim1));
          spos0 = (fst spos - fst phy_shift, snd spos - snd phy_shift)
      in (fst spos0, snd spos0, fst spos0 + fst phy_width, snd spos0 - snd phy_width))"

text \<open>
  The ranges of the stage are \<open>rng = (saxes["x"].range, saxes["y"].range)\<close>.
  \<^verbatim>\<open>
  spos_rng = (saxes["x"].range[0], saxes["y"].range[0],
              saxes["x"].range[1], saxes["y"].range[1])  # max phy ROI
  ...
  if not (spos_rng[0] <= lim_main[0] <= lim_main[2] <= spos_rng[2] and
          spos_rng[1] <= lim_main[3] <= lim_main[1] <= spos_rng[3]):  # Y decreases
      raise ValueError("ROI goes outside the scan stage range (%s > %s)" % ...)
  pos = numpy.empty(repetition + (2,), dtype=numpy.float)
  posx = pos[:, :, 0].swapaxes(0, 1)  # just a view to have X as last dim
  posx[:, :] = numpy.linspace(lim_main[0], lim_main[2], repetition[0])
  pos[:, :, 1] = numpy.linspace(lim_main[1], lim_main[3], repetition[1])
  return pos
  \<close>
  The array has the shape \<open>(rep[0], rep[1], 2)\<close>: \<open>pos[ix, iy] = (x, y)\<close>. The division
  by the repetition comes first and raises \<^verbatim>\<open>ZeroDivisionError\<close>; the warning logged
  when the stage is away from the centre of its range is not recorded.
\<close>

definition getScanStagePositions ::
  "geometry \<Rightarrow> (real \<times> real) \<times> (real \<times> real) \<Rightarrow> real \<times> real
     \<Rightarrow> py_error + (real \<times> real) list list" where
  "getScanStagePositions g rng spos =
     (let repetition = g_rep g
      in if fst repetition = 0 \<or> snd repetition = 0 then Inl ZeroDivisionError
         else
           case scan_stage_box g spos of (m0, m1, m2, m3) \<Rightarrow>
           let spos_rng = (fst (fst rng), fst (snd rng), snd (fst rng), snd (snd rng))
           in case spos_rng of (r0, r1, r2, r3) \<Rightarrow>
             if \<not> (r0 \<le> m0 \<and> m0 \<le> m2 \<and> m2 \<le> r2 \<and> r1 \<le> m3 \<and> m3 \<le> m1 \<and> m1 \<le> r3)
             then Inl ValueError
             else if fst repetition < 0 \<or> snd repetition < 0 then Inl ValueError
             else Inr (map (\<lambda>x. map (\<lambda>y. (x, y)) (linspace m1 m3 (nat (snd repetition))))
                           (linspace m0 m2 (nat (fst repetition)))))"

subsection \<open>The worker of the camera-synchronised engine (SEMCCDMDStream)\<close>

text \<open>
  The model is of an engine whose streams have no leech (so no drift corrector either:
  \<^verbatim>\<open>self._dc_estimator\<close> is \<^verbatim>\<open>None\<close> and the drift is \<open>(0, 0)\<close>) and whose
  \<^verbatim>\<open>_preprocessData\<close> is the one of the base class, which returns the data as it is.
  What the hardware and the clock do is given to the worker: \<open>c_rep_time\<close> is what
  \<^verbatim>\<open>_adjustHardwareSettings\<close> returns, and for each attempt at a pixel an
  \<open>attempt_env\<close> gives the clock readings and the callbacks and cancellations that
  happen before the attempt (\<open>ev_pre\<close>), while the worker sleeps and waits for the
  camera up to its deadline (\<open>ev_wait\<close>) and while it waits for the beam detectors up to
  theirs (\<open>ev_sem\<close>).
\<close>

record attempt_env =
  t_start :: real
  ev_pre :: "env_event list"
  ev_wait :: "env_event list"
  t_elapsed :: real
  ev_sem :: "env_event list"
  t_stored :: real
  t_now :: real

record config =
  c_geom :: geometry
  c_rep_time :: real
  c_trans_rng :: "(real \<times> real) \<times> (real \<times> real)"
  c_useScanStage :: bool
  c_sstage :: "((real \<times> real) \<times> (real \<times> real)) option"

text \<open>Setting a flag for every stream but the last (\<^verbatim>\<open>[:-1]\<close>), and for the last (\<^verbatim>\<open>[-1]\<close>).\<close>

definition all_but_last :: "'a \<Rightarrow> 'a list \<Rightarrow> 'a list" where
  "all_but_last v xs = map (\<lambda>_. v) (butlast xs) @ (if xs = [] then [] else [last xs])"

definition only_last :: "'a \<Rightarrow> 'a list \<Rightarrow> 'a list" where
  "only_last v xs = (if xs = [] then [] else butlast xs @ [v])"

text \<open>
  The top of an attempt:
  \<^verbatim>\<open>
  start = time.time()
  self._acq_min_date = start
  for ce in self._acq_complete:
      ce.clear()
  \<close>
\<close>

definition begin_attempt :: "attempt_env \<Rightarrow> engine \<Rightarrow> engine" where
  "begin_attempt e st =
     (let st0 = run_events (ev_pre e) st
      in st0\<lparr>acq_min_date := Some (t_start e),
              acq_complete := map (\<lambda>_. False) (acq_complete st0)\<rparr>)"

text \<open>
  \<^verbatim>\<open>
  for s, sub in zip(self._streams[:-1], self._subscribers[:-1]):
      s._dataflow.subscribe(sub)
  time.sleep(10e-3)
  self._trigger.notify()
  endt = start + rep_time * 3 + 5
  timedout = not self._acq_complete[-1].wait(rep_time + 0.01)
  if timedout:
      while time.time() < endt:
          timedout = not self._acq_complete[-1].wait(0.005)
          if not timedout:
              break
  \<close>
  The wait has timed out when the event of the last stream is still clear after what
  happened up to the deadline.
\<close>

definition trigger_and_wait :: "attempt_env \<Rightarrow> engine \<Rightarrow> engine" where
  "trigger_and_wait e st =
     run_events (ev_wait e)
       (st\<lparr>subscribed := all_but_last True (subscribed st),
           slept := slept st @ [0.01],
           notified := notified st + 1\<rparr>)"

text \<open>
  \<^verbatim>\<open>
  for s, sub, ce in zip(self._streams[:-1], self._subscribers[:-1], self._acq_complete[:-1]):
      if not ce.wait(sem_time * 1.5 + 5):
          raise TimeoutError(...)
      s._dataflow.unsubscribe(sub)
  \<close>
\<close>

fun wait_beam :: "nat list \<Rightarrow> engine \<Rightarrow> (py_error \<times> engine) + engine" where
  "wait_beam [] st = Inr st"
| "wait_beam (i # js) st =
     (if acq_complete st ! i
      then wait_beam js (st\<lparr>subscribed := (subscribed st)[i := False]\<rparr>)
      else Inl (TimeoutError, st))"

text \<open>
  Storing the pixel, with the beam scanning:
  \<^verbatim>\<open>
  raw_pos = self._acq_data[0][-1].metadata[MD_POS]
  drift_shift = self._dc_estimator.tot_drift if self._dc_estimator else (0, 0)
  cor_pos = (raw_pos[0] + drift_shift[0] * sub_pxs[0],
             raw_pos[1] - drift_shift[1] * sub_pxs[1])  # Y is upside down
  ccd_data = self._acq_data[-1][-1]
  ccd_data.metadata[MD_POS] = cor_pos
  self._acq_data[-1][-1] = self._preprocessData(len(self._streams) - 1, ccd_data, i)
  \<close>
\<close>

definition last_pos :: "dataarray list list \<Rightarrow> py_error + (real \<times> real)" where
  "last_pos ad =
     (case ad of [] \<Rightarrow> Inl IndexError | a0 # _ \<Rightarrow>
      if a0 = [] then Inl IndexError
      else case md_pos (last a0) of None \<Rightarrow> Inl KeyError | Some p \<Rightarrow> Inr p)"

definition set_last_pos :: "real \<times> real \<Rightarrow> dataarray list \<Rightarrow> dataarray list" where
  "set_last_pos p ds = butlast ds @ [(last ds)\<lparr>md_pos := Some p\<rparr>]"

definition store_beam :: "real \<times> real \<Rightarrow> engine \<Rightarrow> py_error + engine" where
  "store_beam sub_pxs st =
     (case last_pos (acq_data st) of Inl e \<Rightarrow> Inl e | Inr raw_pos \<Rightarrow>
      let drift_shift = (0, 0);
          cor_pos = (fst raw_pos + fst drift_shift * fst sub_pxs,
                     snd raw_pos - snd drift_shift * snd sub_pxs)
      in if last (acq_data st) = [] then Inl IndexError
         else Inr (st\<lparr>acq_data := butlast (acq_data st) @ [set_last_pos cor_pos (last (acq_data st))]\<rparr>))"

text \<open>
  Storing the pixel, with the stage scanning (\<open>spos\<close> is the position of the grid,
  \<open>orig_spos\<close> where the stage was at the start):
  \<^verbatim>\<open>
  raw_pos = self._acq_data[0][-1].metadata[MD_POS]
  strans = spos[0] - orig_spos["x"], spos[1] - orig_spos["y"]
  cor_pos = raw_pos[0] + strans[0], raw_pos[1] + strans[1]
  for adas in self._acq_data:
      adas[-1].metadata[MD_POS] = cor_pos
  ccd_data = self._acq_data[-1][-1]
  self._acq_data[-1][-1] = self._preprocessData(len(self._streams), ccd_data, i)
  \<close>
\<close>

definition store_stage :: "real \<times> real \<Rightarrow> real \<times> real \<Rightarrow> engine \<Rightarrow> py_error + engine" where
  "store_stage spos orig_spos st =
     (case last_pos (acq_data st) of Inl e \<Rightarrow> Inl e | Inr raw_pos \<Rightarrow>
      let strans = (fst spos - fst orig_spos, snd spos - snd orig_spos);
          cor_pos = (fst raw_pos + fst strans, snd raw_pos + snd strans)
      in if [] \<in> set (acq_data st) then Inl IndexError
         else Inr (st\<lparr>acq_data := map (set_last_pos cor_pos) (acq_data st)\<rparr>))"

text \<open>
  One pass through the body of \<^verbatim>\<open>while True\<close> up to the point where the attempt is
  known to have failed, has raised or has stored the pixel
  (\<^verbatim>\<open>n += 1\<close>, then \<^verbatim>\<open>_updateProgress\<close> with no time left for leeches).
  \<^verbatim>\<open>
  if self._acq_state == CANCELLED:
      raise CancelledError()
  ... (subscribe, trigger, wait)
  if self._acq_state == CANCELLED:
      raise CancelledError()
  dur = time.time() - start
  if timedout or dur < rep_time * 0.95:
      ... logging.warning(...)
  \<close>
\<close>

datatype attempt_result = Stored engine | Failed engine | Raised py_error engine

definition attempt ::
  "real \<Rightarrow> (engine \<Rightarrow> py_error + engine) \<Rightarrow> int \<Rightarrow> nat \<Rightarrow> attempt_env \<Rightarrow> engine
     \<Rightarrow> attempt_result" where
  "attempt rep_time store tot_num n e st =
     (let st1 = begin_attempt e st
      in if acq_state st1 = CANCELLED then Raised CancelledError st1
         else
           let st3 = trigger_and_wait e st1
           in if acq_complete st3 = [] then Raised IndexError st3
              else
                let timedout = \<not> last (acq_complete st3)
                in if acq_state st3 = CANCELLED then Raised CancelledError st3
                   else if timedout \<or> t_elapsed e < rep_time * 0.95
                   then Failed (st3\<lparr>warnings := warnings st3 + 1\<rparr>)
                   else
                     case wait_beam [0..<length (acq_complete st3) - 1]
                            (run_events (ev_sem e) st3) of
                       Inl (err, st4) \<Rightarrow> Raised err st4
                     | Inr st4 \<Rightarrow>
                         if acq_state st4 = CANCELLED then Raised CancelledError st4
                         else
                           case store st4 of
                             Inl err \<Rightarrow> Raised err st4
                           | Inr st5 \<Rightarrow>
                               Stored (st5\<lparr>prog := updateProgress (t_now e) (t_stored e)
                                                      (int n + 1) tot_num 0 (prog st5)\<rparr>))"

text \<open>
  The rest of the loop: a failure is counted, and at the third the worker gives up;
  before that it stops everything, forgets the data of this pass and tries again.
  \<^verbatim>\<open>
  failures += 1
  if failures >= 3:
      raise IOError("Repetition stream acquisition repeatedly fails to synchronize")
  else:
      for s, sub, ad in zip(self._streams, self._subscribers, self._acq_data):
          s._dataflow.unsubscribe(sub)
          ad[:] = ad[:n]
      time.sleep(1)
      self._ccd_df.subscribe(self._subscribers[-1])
      continue
  \<close>
  Attempt number \<open>failures\<close> at the pixel gets the environment \<open>env failures\<close>.
\<close>

definition restart_acquisition :: "nat \<Rightarrow> engine \<Rightarrow> engine" where
  "restart_acquisition n st =
     st\<lparr>subscribed := only_last True (map (\<lambda>_. False) (subscribed st)),
        acq_data := map (take n) (acq_data st),
        slept := slept st @ [1]\<rparr>"

function acquire_pixel ::
  "real \<Rightarrow> (engine \<Rightarrow> py_error + engine) \<Rightarrow> int \<Rightarrow> nat \<Rightarrow> (nat \<Rightarrow> attempt_env) \<Rightarrow> nat \<Rightarrow> engine
     \<Rightarrow> (py_error \<times> engine) + engine" where
  "acquire_pixel rep_time store tot_num n env failures st =
     (case attempt rep_time store tot_num n (env failures) st of
        Stored st' \<Rightarrow> Inr st'
      | Raised err st' \<Rightarrow> Inl (err, st')
      | Failed st' \<Rightarrow>
          if 3 \<le> failures + 1 then Inl (IOError, st')
          else acquire_pixel rep_time store tot_num n env (failures + 1)
                 (restart_acquisition n st'))"
  by pat_completeness auto
termination
  by (relation "measure (\<lambda>(rep_time, store, tot_num, n, env, failures, st). 3 - failures)") auto

text \<open>
  Modelled from the spec: the clipping of the translation VA of the scanner
  (\<^verbatim>\<open>self._emitter.translation.clip\<close>), which is not among the sources: each
  coordinate is brought into its valid range \<open>((xmin, ymin), (xmax, ymax))\<close>.
\<close>

definition clip :: "(real \<times> real) \<times> (real \<times> real) \<Rightarrow> real \<times> real \<Rightarrow> real \<times> real" where
  "clip rng v = (max (min (fst v) (fst (snd rng))) (fst (fst rng)),
                 max (min (snd v) (snd (snd rng))) (snd (fst rng)))"

text \<open>
  The loop over the pixels, the beam scanning; \<open>n\<close> is the number of pixels stored so
  far and pixel number \<open>n\<close> gets the environments \<open>env n\<close>:
  \<^verbatim>\<open>
  n = 0  # number of points acquired so far
  for i in numpy.ndindex(*rep[::-1]):  # last dim (X) iterates first
      trans = tuple(spot_pos[i])
      ...
      cptrans = self._emitter.translation.clip(trans)
      ...
      self._emitter.translation.value = cptrans
      failures = 0  # Keep track of synchronizing failures
      while True:
          ...
  \<close>
\<close>

fun run_pixels ::
  "config \<Rightarrow> int \<Rightarrow> (real \<times> real) list \<Rightarrow> nat \<Rightarrow> (nat \<Rightarrow> nat \<Rightarrow> attempt_env) \<Rightarrow> engine
     \<Rightarrow> (py_error \<times> engine) + engine" where
  "run_pixels cfg tot_num [] n env st = Inr st"
| "run_pixels cfg tot_num (tr # rest) n env st =
     (let cptrans = clip (c_trans_rng cfg) tr;
          st1 = st\<lparr>translation := cptrans\<rparr>
      in case acquire_pixel (c_rep_time cfg) (store_beam (g_epxs (c_geom cfg))) tot_num n
                (env n) 0 st1 of
           Inl x \<Rightarrow> Inl x
         | Inr st2 \<Rightarrow> run_pixels cfg tot_num rest (Suc n) env st2)"

text \<open>
  The loop over the pixels, the stage scanning:
  \<^verbatim>\<open>
  for i in numpy.ndindex(*rep[::-1]):  # last dim (X) iterates first
      spos = stage_pos[i[::-1]][0], stage_pos[i[::-1]][1]
      ...
          drift_shift = (0, 0)  # m
      cspos = {"x": spos[0] - drift_shift[0],
               "y": spos[1] - drift_shift[1]}
      if not (spos_rng[0] <= cspos["x"] <= spos_rng[2] and
              spos_rng[1] <= cspos["y"] <= spos_rng[3]):
          logging.error(...)
          cspos = {"x": min(max(spos_rng[0], cspos["x"]), spos_rng[2]),
                   "y": min(max(spos_rng[1], cspos["y"]), spos_rng[3])}
      for a, p in cspos.items():
          if prev_spos[a] == p:
              del cspos[a]
      sstage.moveAbsSync(cspos)
      prev_spos.update(cspos)
      failures = 0
      while True:
          ...
  \<close>
  The stage goes where it is asked to go.
\<close>

fun run_pixels_stage ::
  "config \<Rightarrow> (real \<times> real) \<times> (real \<times> real) \<Rightarrow> int \<Rightarrow> real \<times> real \<Rightarrow> (real \<times> real) list
     \<Rightarrow> real \<times> real \<Rightarrow> nat \<Rightarrow> (nat \<Rightarrow> nat \<Rightarrow> attempt_env) \<Rightarrow> engine
     \<Rightarrow> (py_error \<times> engine) + engine" where
  "run_pixels_stage cfg rng tot_num orig_spos [] prev_spos n env st = Inr st"
| "run_pixels_stage cfg rng tot_num orig_spos (spos # rest) prev_spos n env st =
     (let drift_shift = (0, 0);
          cspos0 = (fst spos - fst drift_shift, snd spos - snd drift_shift);
          r0 = fst (fst rng); r2 = snd (fst rng); r1 = fst (snd rng); r3 = snd (snd rng);
          cspos = (if \<not> (r0 \<le> fst cspos0 \<and> fst cspos0 \<le> r2 \<and> r1 \<le> snd cspos0 \<and> snd cspos0 \<le> r3)
                   then (min (max r0 (fst cspos0)) r2, min (max r1 (snd cspos0)) r3)
                   else cspos0);
          mv = (if fst prev_spos = fst cspos then None else Some (fst cspos),
                if snd prev_spos = snd cspos then None else Some (snd cspos));
          st1 = st\<lparr>stage_moves := stage_moves st @ [mv],
                   stage_position :=
                     (case fst mv of None \<Rightarrow> fst (stage_position st) | Some x \<Rightarrow> x,
                      case snd mv of None \<Rightarrow> snd (stage_position st) | Some y \<Rightarrow> y)\<rparr>
      in case acquire_pixel (c_rep_time cfg) (store_stage spos orig_spos) tot_num n (env n) 0 st1 of
           Inl x \<Rightarrow> Inl x
         | Inr st2 \<Rightarrow> run_pixels_stage cfg rng tot_num orig_spos rest cspos (Suc n) env st2)"

text \<open>
  The end of a run. \<^verbatim>\<open>_onCompletedData\<close> of \<^verbatim>\<open>SEMCCDMDStream\<close> assembles the data
  of each stream as tiles and appends the image to \<^verbatim>\<open>self._raw\<close>; \<open>ev_end\<close> is what
  happens before the worker takes the lock.
  \<^verbatim>\<open>
  for s, sub in zip(self._streams, self._subscribers):
      s._dataflow.unsubscribe(sub)
  self._ccd_df.synchronizedOn(None)
  with self._acq_lock:
      if self._acq_state == CANCELLED:
          raise CancelledError()
      self._acq_state = FINISHED
  for n, das in enumerate(self._acq_data):
      self._onCompletedData(n, das)
  \<close>
\<close>

fun complete_data :: "geometry \<Rightarrow> dataarray list list \<Rightarrow> engine \<Rightarrow> (py_error \<times> engine) + engine" where
  "complete_data g [] st = Inr st"
| "complete_data g (das # rest) st =
     (case assembleTiles g (g_rep g) das of
        Inl e \<Rightarrow> Inl (e, st)
      | Inr da \<Rightarrow> complete_data g rest (st\<lparr>raw := raw st @ [da]\<rparr>))"

definition finish_acquisition ::
  "geometry \<Rightarrow> env_event list \<Rightarrow> engine \<Rightarrow> (py_error \<times> engine) + engine" where
  "finish_acquisition g ev_end st =
     (let st1 = st\<lparr>subscribed := map (\<lambda>_. False) (subscribed st),
                   synchronized := only_last False (synchronized st)\<rparr>;
          st2 = run_events ev_end st1
      in if acq_state st2 = CANCELLED then Inl (CancelledError, st2)
         else complete_data g (acq_data st2) (st2\<lparr>acq_state := FINISHED\<rparr>))"

text \<open>
  \<^verbatim>\<open>
  except Exception as exp:
      ...
      for s, sub in zip(self._streams, self._subscribers):
          s._dataflow.unsubscribe(sub)
      self._ccd_df.synchronizedOn(None)
      self._raw = []
      self._anchor_raw = []
      if not isinstance(exp, CancelledError) and self._acq_state == CANCELLED:
          raise CancelledError()
      raise
  \<close>
\<close>

definition on_exception :: "py_error \<times> engine \<Rightarrow> py_error \<times> engine" where
  "on_exception x =
     (case x of (err, st) \<Rightarrow>
      let st' = st\<lparr>subscribed := map (\<lambda>_. False) (subscribed st),
                   synchronized := only_last False (synchronized st),
                   raw := []\<rparr>
      in (if err \<noteq> CancelledError \<and> acq_state st' = CANCELLED then CancelledError else err, st'))"

text \<open>
  The \<^verbatim>\<open>raw\<close> property leaves the empty arrays out; the \<^verbatim>\<open>finally\<close> clause empties
  the accumulators and sets \<^verbatim>\<open>self._acq_done\<close>.
\<close>

definition raw_property :: "engine \<Rightarrow> dataarray list" where
  "raw_property st = filter (\<lambda>da. da_shape da \<noteq> [0]) (raw st)"

definition finally_clause :: "engine \<Rightarrow> engine" where
  "finally_clause st = st\<lparr>acq_data := map (\<lambda>_. []) (acq_complete st), acq_done := True\<rparr>"

definition conclude :: "(py_error \<times> engine) + engine \<Rightarrow> (py_error + dataarray list) \<times> engine" where
  "conclude body =
     (case body of
        Inl x \<Rightarrow> (case on_exception x of (err, st') \<Rightarrow> (Inl err, st'))
      | Inr st' \<Rightarrow> (Inr (raw_property st'), st'))"

text \<open>
  \<^verbatim>\<open>_runAcquisitionScanStage\<close>: the stage and its ranges are read, the beam is put at
  the centre (\<^verbatim>\<open>_adjustHardwareSettingsScanStage\<close>), the positions of the stage are
  computed, the camera is synchronised and subscribed, and the pixels are acquired. Whatever
  happens, the \<^verbatim>\<open>finally\<close> clause moves the stage, if there is one, to the centre of
  its ranges:
  \<^verbatim>\<open>
  finally:
      if sstage:
          # Move back the stage to the center
          saxes = sstage.axes
          pos0 = {"x": sum(saxes["x"].range) / 2,
                  "y": sum(saxes["y"].range) / 2}
          sstage.moveAbs(pos0).result()
      ...
  \<close>
\<close>

definition stage_pixels :: "int \<times> int \<Rightarrow> (real \<times> real) list list \<Rightarrow> (real \<times> real) list" where
  "stage_pixels rep stage_pos =
     concat (map (\<lambda>iy. map (\<lambda>ix. stage_pos ! ix ! iy) [0..<nat (fst rep)]) [0..<nat (snd rep)])"

definition runAcquisitionScanStage ::
  "config \<Rightarrow> (nat \<Rightarrow> nat \<Rightarrow> attempt_env) \<Rightarrow> env_event list \<Rightarrow> engine
     \<Rightarrow> (py_error + dataarray list) \<times> engine" where
  "runAcquisitionScanStage cfg env ev_end st =
     (let body =
            (case c_sstage cfg of
               None \<Rightarrow> Inl (ValueError, st)
             | Some rng \<Rightarrow>
                 let orig_spos = stage_position st;
                     st1 = st\<lparr>acq_done := False, translation := (0, 0)\<rparr>
                 in case getScanStagePositions (c_geom cfg) rng (stage_position st1) of
                      Inl e \<Rightarrow> Inl (e, st1)
                    | Inr stage_pos \<Rightarrow>
                        let rep = g_rep (c_geom cfg);
                            st2 = st1\<lparr>acq_data := map (\<lambda>_. []) (acq_complete st1), raw := []\<rparr>;
                            tot_num = fst rep * snd rep;
                            st3 = st2\<lparr>synchronized := only_last True (synchronized st2),
                                      subscribed := only_last True (subscribed st2)\<rparr>
                        in case run_pixels_stage cfg rng tot_num orig_spos
                                  (stage_pixels rep stage_pos) orig_spos 0 env st3 of
                             Inl x \<Rightarrow> Inl x
                           | Inr st4 \<Rightarrow> finish_acquisition (c_geom cfg) ev_end st4)
      in case conclude body of (res, stf) \<Rightarrow>
           let stf' = (case c_sstage cfg of
                         None \<Rightarrow> stf
                       | Some rng \<Rightarrow>
                           let pos0 = ((fst (fst rng) + snd (fst rng)) / 2,
                                       (fst (snd rng) + snd (snd rng)) / 2)
                           in stf\<lparr>stage_moves := stage_moves stf @ [(Some (fst pos0), Some (snd pos0))],
                                  stage_position := pos0\<rparr>)
           in (res, finally_clause stf'))"

text \<open>
  \<^verbatim>\<open>_runAcquisition\<close>: with a scan stage in use it is the run above; otherwise the
  beam positions are computed, the camera is synchronised and subscribed, and the pixels
  are acquired.
\<close>

definition runAcquisition ::
  "config \<Rightarrow> (nat \<Rightarrow> nat \<Rightarrow> attempt_env) \<Rightarrow> env_event list \<Rightarrow> engine
     \<Rightarrow> (py_error + dataarray list) \<times> engine" where
  "runAcquisition cfg env ev_end st =
     (if c_useScanStage cfg then runAcquisitionScanStage cfg env ev_end st
      else
        let st1 = st\<lparr>acq_done := False\<rparr>;
            body =
              (case getSpotPositions (c_geom cfg) of
                 Inl e \<Rightarrow> Inl (e, st1)
               | Inr spot_pos \<Rightarrow>
                   let rep = g_rep (c_geom cfg);
                       tot_num = fst rep * snd rep;
                       st2 = st1\<lparr>acq_data := map (\<lambda>_. []) (acq_complete st1), raw := []\<rparr>;
                       st3 = st2\<lparr>synchronized := only_last True (synchronized st2),
                                 subscribed := only_last True (subscribed st2)\<rparr>
                   in case run_pixels cfg tot_num (concat spot_pos) 0 env st3 of
                        Inl x \<Rightarrow> Inl x
                      | Inr st4 \<Rightarrow> finish_acquisition (c_geom cfg) ev_end st4)
        in case conclude body of (res, stf) \<Rightarrow> (res, finally_clause stf))"

subsection \<open>Environments and notions of the specification\<close>

text \<open>
  The target box lies within the ranges of the stage when its two X limits are in the
  range of the X axis and its two Y limits in the range of the Y axis.
\<close>

definition box_in_range ::
  "real \<times> real \<times> real \<times> real \<Rightarrow> (real \<times> real) \<times> (real \<times> real) \<Rightarrow> bool" where
  "box_in_range box rng =
     (case box of (m0, m1, m2, m3) \<Rightarrow>
        fst (fst rng) \<le> m0 \<and> m0 \<le> snd (fst rng) \<and> fst (fst rng) \<le> m2 \<and> m2 \<le> snd (fst rng)
      \<and> fst (snd rng) \<le> m1 \<and> m1 \<le> snd (snd rng) \<and> fst (snd rng) \<le> m3 \<and> m3 \<le> snd (snd rng))"

text \<open>
  The mock detectors of the retry property: at pixel \<open>k\<close> the camera misses the first
  \<open>misses ! k\<close> triggers (none when the list is shorter). At a missed trigger the beam
  detector delivers \<open>sem\<close>, nothing comes from the camera and the wait runs to its
  deadline; otherwise both detectors deliver, after the time \<open>rep_time\<close>. The clock is
  read as 0 at the start of each attempt.
\<close>

definition misses_at :: "nat list \<Rightarrow> nat \<Rightarrow> nat" where
  "misses_at misses k = (if k < length misses then misses ! k else 0)"

definition mock_env ::
  "real \<Rightarrow> dataarray \<Rightarrow> dataarray \<Rightarrow> nat list \<Rightarrow> nat \<Rightarrow> nat \<Rightarrow> attempt_env" where
  "mock_env rep_time sem ccd misses k j =
     (let missed = (j < misses_at misses k)
      in \<lparr>t_start = 0, ev_pre = [],
          ev_wait = (if missed then [Data 0 sem] else [Data 0 sem, Data 1 ccd]),
          t_elapsed = (if missed then rep_time * 3 + 5 else rep_time),
          ev_sem = [], t_stored = rep_time, t_now = rep_time\<rparr>)"

text \<open>
  What holds of the engine between two pixels of a run with the mock detectors, after
  \<open>k\<close> pixels: the acquisition is running, there are two streams, nothing is
  assembled yet, and the accumulators
  hold \<open>k\<close> samples of the beam detector and \<open>k\<close> of the camera, the latter with the
  position of the former.
\<close>

definition mock_inv :: "dataarray \<Rightarrow> dataarray \<Rightarrow> nat \<Rightarrow> engine \<Rightarrow> bool" where
  "mock_inv sem ccd k st =
     (acq_state st = RUNNING \<and> length (acq_complete st) = 2 \<and> length (subscribed st) = 2
      \<and> raw st = []
      \<and> acq_data st = [replicate k sem, replicate k (ccd\<lparr>md_pos := md_pos sem\<rparr>)])"

section \<open>Properties\<close>

lemma run_updates_prog_sum:
  "2 \<le> k \<Longrightarrow> prog_sum (run_updates k tot us p) = prog_sum p + sum_list (map (\<lambda>u. fst (snd u)) us)"
proof (induction us arbitrary: k p)
  case Nil
  then show ?case by simp
next
  case (Cons u us)
  obtain now dur bonus where u: "u = (now, dur, bonus)" by (cases u) auto
  have "2 \<le> k + 1" using Cons.prems by simp
  from Cons.IH [OF this, of "updateProgress now dur k tot bonus p"] Cons.prems
  show ?case by (simp add: u updateProgress_def Let_def)
qed

text \<open>
  C9. A progress update with \<open>n \<le> 1\<close> changes nothing. With \<open>n > 1\<close> the duration is
  added to the recorded sum and the estimated end becomes
  \<open>now + sum * (tot - n) / (n - 1) + 0.001 * tot + bonus + 0.1\<close>; and in a run of
  updates for pixels \<open>1, 2, \<dots>\<close> from a zero sum, the recorded sum is the sum of the
  durations of all pixels but the first.
\<close>

theorem C9_updateProgress:
  "(n \<le> 1 \<longrightarrow> updateProgress now dur n tot bonus p = p)
   \<and> (1 < n \<longrightarrow>
        prog_sum (updateProgress now dur n tot bonus p) = prog_sum p + dur
      \<and> future_end (updateProgress now dur n tot bonus p) =
          now + (prog_sum p + dur) * real_of_int (tot - n) / real_of_int (n - 1)
            + 0.001 * real_of_int tot + bonus + 0.1)
   \<and> prog_sum (run_updates 1 tot (u # us) (p\<lparr>prog_sum := 0\<rparr>))
        = sum_list (map (\<lambda>u. fst (snd u)) us)"
proof -
  obtain now' dur' bonus' where u: "u = (now', dur', bonus')" by (cases u) auto
  have "prog_sum (run_updates 2 tot us (p\<lparr>prog_sum := 0\<rparr>))
          = sum_list (map (\<lambda>u. fst (snd u)) us)"
    using run_updates_prog_sum [of 2 tot us "p\<lparr>prog_sum := 0\<rparr>"] by simp
  then show ?thesis
    by (simp add: u updateProgress_def Let_def)
qed

theorem C9_updateProgress_witness:
  "updateProgress 100 2 1 4 0 \<lparr>prog_sum = 0, future_end = 50\<rparr> = \<lparr>prog_sum = 0, future_end = 50\<rparr>
   \<and> future_end (updateProgress 100 2 3 5 1 \<lparr>prog_sum = 4, future_end = 50\<rparr>) = 107105 / 1000
   \<and> prog_sum (run_updates 1 3 [(10, 7, 0), (11, 2, 0), (12, 3, 0)]
        (\<lparr>prog_sum = 9, future_end = 0\<rparr>\<lparr>prog_sum := 0\<rparr>)) = 5"
  using C9_updateProgress [where n = 1 and now = 100 and dur = 2 and tot = 4 and bonus = 0
          and p = "\<lparr>prog_sum = 0, future_end = 50\<rparr>" and u = "(10, 7, 0)"
          and us = "[(11, 2, 0), (12, 3, 0)]"]
        C9_updateProgress [where n = 3 and now = 100 and dur = 2 and tot = 5 and bonus = 1
          and p = "\<lparr>prog_sum = 4, future_end = 50\<rparr>" and u = "(10, 7, 0)"
          and us = "[(11, 2, 0), (12, 3, 0)]"]
        C9_updateProgress [where n = 1 and now = 100 and dur = 2 and tot = 3 and bonus = 0
          and p = "\<lparr>prog_sum = 9, future_end = 0\<rparr>" and u = "(10, 7, 0)"
          and us = "[(11, 2, 0), (12, 3, 0)]"]
  by simp

lemma getPixelSize_Inr:
  "getPixelSize g = Inr p \<Longrightarrow> p = spec_pixel_size_x g \<and> fst (g_rep g) \<noteq> 0 \<and> snd (g_rep g) \<noteq> 0"
  by (auto simp: getPixelSize_def spec_pixel_size_x_def Let_def split: prod.splits if_splits)

lemma get_center_pxs_Inr:
  assumes "get_center_pxs g rep sub d = Inr (c, pxs)"
  shows "\<exists>tl0. top_left d = Inr tl0
     \<and> pxs = (spec_pixel_size_x g / real_of_int (fst sub), spec_pixel_size_x g / real_of_int (snd sub))
     \<and> c = (fst tl0 + (fst pxs * (real_of_int (fst rep * fst sub) - 1)) / 2,
            snd tl0 - (snd pxs * (real_of_int (snd rep * snd sub) - 1)) / 2)
     \<and> fst sub \<noteq> 0 \<and> snd sub \<noteq> 0"
  using assms
  by (auto simp: get_center_pxs_def Let_def split: sum.splits if_splits dest!: getPixelSize_Inr)

lemma assemble2DData_md:
  assumes "assemble2DData g rep ds = Inr img" and "da_shape (hd ds) \<noteq> [0]"
  shows "\<exists>c pxs. get_center_pxs g rep (1, 1) (hd ds) = Inr (c, pxs)
           \<and> md_pos img = Some c \<and> md_pxs img = Some pxs
           \<and> da_shape img = [nat (snd rep), nat (fst rep)]"
  using assms
  by (auto simp: assemble2DData_def Let_def split: list.splits sum.splits if_splits prod.splits)

lemma assembleTiles_md:
  assumes "assembleTiles g rep ds = Inr img"
  shows "\<exists>T S c pxs. da_shape (hd ds) = [T, S] \<and> get_center_pxs g rep (int T, int S) (hd ds) = Inr (c, pxs)
           \<and> md_pos img = Some c \<and> md_pxs img = Some pxs
           \<and> da_shape img = [nat (snd rep) * T, nat (fst rep) * S]"
  using assms
  by (auto simp: assembleTiles_def Let_def split: list.splits sum.splits if_splits prod.splits)

lemma top_left_tile:
  "da_shape d = [T, S] \<Longrightarrow> top_left d = Inr tl0 \<Longrightarrow>
   \<exists>pos dpxs. md_pos d = Some pos \<and> md_pxs d = Some dpxs
     \<and> tl0 = (fst pos - (fst dpxs * (real S - 1)) / 2, snd pos + (snd dpxs * (real T - 1)) / 2)"
  by (auto simp: top_left_def from_end_def split: option.splits)

text \<open>
  C3 as stated fails: with a full ROI, one pixel and an emitter of 4 by 2 pixels of size 1,
  the specification's pixel size is 4 along X and 2 along Y, and the assembled image
  carries (4, 4).
\<close>

theorem C3_counterexample:
  "assemble2DData \<lparr>g_roi = (0, 0, 1, 1), g_rep = (1, 1), g_eshape = (4, 2), g_epxs = (1, 1)\<rparr> (1, 1)
     [\<lparr>da_shape = [1, 1], da_values = [7], md_pos = Some (0, 0), md_pxs = Some (1, 1),
       md_acq_date = None, md_dwell = None\<rparr>]
   = Inr \<lparr>da_shape = [1, 1], da_values = [7], md_pos = Some (0, 0), md_pxs = Some (4, 4),
       md_acq_date = None, md_dwell = None\<rparr>
   \<and> spec_pixel_size_x \<lparr>g_roi = (0, 0, 1, 1), g_rep = (1, 1), g_eshape = (4, 2), g_epxs = (1, 1)\<rparr> = 4
   \<and> spec_pixel_size_y \<lparr>g_roi = (0, 0, 1, 1), g_rep = (1, 1), g_eshape = (4, 2), g_epxs = (1, 1)\<rparr> = 2"
  by (simp add: assemble2DData_def get_center_pxs_def top_left_def from_end_def getPixelSize_def
        spec_pixel_size_x_def spec_pixel_size_y_def Let_def)

text \<open>
  C3 (amended). \<^verbatim>\<open>_getPixelSize\<close> returns one value, the one derived along X, and
  both components of the pixel size of the assembled image come from it: a flat image has
  the X value of the specification on both axes, an image of square tiles of \<open>T\<close> by
  \<open>T\<close> sub-pixels has that value divided by \<open>T\<close>. The Y component is the Y value of
  the specification when the two values agree (square pixels).
\<close>

theorem C3_pixel_size:
  "(assemble2DData g rep ds = Inr img \<and> da_shape (hd ds) \<noteq> [0] \<longrightarrow>
      md_pxs img = Some (spec_pixel_size_x g, spec_pixel_size_x g)
      \<and> (spec_pixel_size_y g = spec_pixel_size_x g \<longrightarrow>
           md_pxs img = Some (spec_pixel_size_x g, spec_pixel_size_y g)))
   \<and> (assembleTiles g rep ds = Inr timg \<and> da_shape (hd ds) = [T, T] \<longrightarrow>
        md_pxs timg = Some (spec_pixel_size_x g / real T, spec_pixel_size_x g / real T))"
proof (intro conjI impI)
  assume a: "assemble2DData g rep ds = Inr img \<and> da_shape (hd ds) \<noteq> [0]"
  then obtain c pxs where 1: "get_center_pxs g rep (1, 1) (hd ds) = Inr (c, pxs)"
      and 2: "md_pxs img = Some pxs"
    using assemble2DData_md by blast
  from get_center_pxs_Inr [OF 1] 2
  show p: "md_pxs img = Some (spec_pixel_size_x g, spec_pixel_size_x g)" by auto
  assume "spec_pixel_size_y g = spec_pixel_size_x g"
  with p show "md_pxs img = Some (spec_pixel_size_x g, spec_pixel_size_y g)" by simp
next
  assume t: "assembleTiles g rep ds = Inr timg \<and> da_shape (hd ds) = [T, T]"
  then obtain T' S' c pxs where 1: "da_shape (hd ds) = [T', S']"
      and 2: "get_center_pxs g rep (int T', int S') (hd ds) = Inr (c, pxs)"
      and 3: "md_pxs timg = Some pxs"
    using assembleTiles_md by blast
  from 1 t have "T' = T" "S' = T" by simp_all
  with get_center_pxs_Inr [OF 2] 3
  show "md_pxs timg = Some (spec_pixel_size_x g / real T, spec_pixel_size_x g / real T)"
    by auto
qed

lemma top_left_Inr:
  "top_left d = Inr tl0 \<Longrightarrow>
   \<exists>pos dpxs s1 s2. md_pos d = Some pos \<and> md_pxs d = Some dpxs
     \<and> from_end (da_shape d) 1 = Inr s1 \<and> from_end (da_shape d) 2 = Inr s2
     \<and> tl0 = (fst pos - (fst dpxs * (real s1 - 1)) / 2, snd pos + (snd dpxs * (real s2 - 1)) / 2)"
  by (auto simp: top_left_def split: option.splits sum.splits)

text \<open>
  C1 as stated fails, in two ways. With pixels that are not square (an emitter of 4 by 2
  pixels, a repetition of 2 by 2), the first pixel at \<open>(-1, 1/2)\<close> gives an image at
  \<open>(0, -1/2)\<close>, where the first position plus \<open>((rep - 1) / 2) * (px, - py)\<close> is
  \<open>(0, 0)\<close>: the displacement along Y uses the pixel size derived along X. And with a
  first data array of two pixels at \<open>(0, 1)\<close> the image is at \<open>(0, 0)\<close>, where the
  formula from that position gives \<open>(1, 0)\<close>: the displacement starts from the centre
  of its top-left pixel.
\<close>

theorem C1_counterexample:
  "assemble2DData \<lparr>g_roi = (0, 0, 1, 1), g_rep = (2, 2), g_eshape = (4, 2), g_epxs = (1, 1)\<rparr> (2, 2)
     [\<lparr>da_shape = [1, 1], da_values = [7], md_pos = Some (- 1, 1 / 2), md_pxs = Some (2, 1),
       md_acq_date = None, md_dwell = None\<rparr>,
      \<lparr>da_shape = [1, 1], da_values = [8], md_pos = Some (1, 1 / 2), md_pxs = Some (2, 1),
       md_acq_date = None, md_dwell = None\<rparr>,
      \<lparr>da_shape = [1, 2], da_values = [9, 10], md_pos = Some (0, - 1 / 2), md_pxs = Some (2, 1),
       md_acq_date = None, md_dwell = None\<rparr>]
   = Inr \<lparr>da_shape = [2, 2], da_values = [7, 8, 9, 10], md_pos = Some (0, - 1 / 2),
       md_pxs = Some (2, 2), md_acq_date = None, md_dwell = None\<rparr>
   \<and> (- 1 + ((real_of_int 2 - 1) / 2)
           * spec_pixel_size_x \<lparr>g_roi = (0, 0, 1, 1), g_rep = (2, 2), g_eshape = (4, 2), g_epxs = (1, 1)\<rparr>,
        1 / 2 - ((real_of_int 2 - 1) / 2)
           * spec_pixel_size_y \<lparr>g_roi = (0, 0, 1, 1), g_rep = (2, 2), g_eshape = (4, 2), g_epxs = (1, 1)\<rparr>)
       = (0, 0)
   \<and> assemble2DData \<lparr>g_roi = (0, 0, 1, 1), g_rep = (2, 2), g_eshape = (4, 4), g_epxs = (1, 1)\<rparr> (2, 2)
     [\<lparr>da_shape = [1, 2], da_values = [7, 8], md_pos = Some (0, 1), md_pxs = Some (2, 2),
       md_acq_date = None, md_dwell = None\<rparr>,
      \<lparr>da_shape = [1, 2], da_values = [9, 10], md_pos = Some (0, - 1), md_pxs = Some (2, 2),
       md_acq_date = None, md_dwell = None\<rparr>]
   = Inr \<lparr>da_shape = [2, 2], da_values = [7, 8, 9, 10], md_pos = Some (0, 0),
       md_pxs = Some (2, 2), md_acq_date = None, md_dwell = None\<rparr>
   \<and> (0 + ((real_of_int 2 - 1) / 2)
           * spec_pixel_size_x \<lparr>g_roi = (0, 0, 1, 1), g_rep = (2, 2), g_eshape = (4, 4), g_epxs = (1, 1)\<rparr>,
        1 - ((real_of_int 2 - 1) / 2)
           * spec_pixel_size_y \<lparr>g_roi = (0, 0, 1, 1), g_rep = (2, 2), g_eshape = (4, 4), g_epxs = (1, 1)\<rparr>)
       = (1, 0)"
  by (simp add: assemble2DData_def get_center_pxs_def top_left_def from_end_def getPixelSize_def
        spec_pixel_size_x_def spec_pixel_size_y_def Let_def)

text \<open>
  C1 (amended). The position of an assembled image is the centre of the top-left pixel of
  the first data array received, that is its own position moved by half its extent,
  \<open>((shape - 1) / 2) * (- dpx, + dpy)\<close> with its own pixel size, plus
  \<open>((N - 1) / 2) * (p, - p)\<close>, where \<open>p\<close> is the one pixel size derived along X from
  the ROI and the emitter and \<open>N\<close> the number of pixels of the image along each axis:
  for a flat image \<open>N\<close> is the repetition and \<open>p\<close> the X value of the specification;
  for an image of square tiles of \<open>T\<close> by \<open>T\<close> sub-pixels \<open>N\<close> is the repetition
  times \<open>T\<close> and \<open>p\<close> that value over \<open>T\<close>. When the first data array is one pixel,
  and when the tiles carry the derived pixel size as their own, the position is the first
  position plus \<open>((rep - 1) / 2) * (px, - px)\<close>.
\<close>

theorem C1_center:
  "(assemble2DData g rep ds = Inr img \<and> da_shape (hd ds) \<noteq> [0] \<longrightarrow>
      (\<exists>pos dpxs s1 s2. md_pos (hd ds) = Some pos \<and> md_pxs (hd ds) = Some dpxs
         \<and> from_end (da_shape (hd ds)) 1 = Inr s1 \<and> from_end (da_shape (hd ds)) 2 = Inr s2
         \<and> top_left (hd ds)
             = Inr (fst pos - (fst dpxs * (real s1 - 1)) / 2, snd pos + (snd dpxs * (real s2 - 1)) / 2)
         \<and> md_pos img =
             Some (fst pos - (fst dpxs * (real s1 - 1)) / 2
                     + ((real_of_int (fst rep) - 1) / 2) * spec_pixel_size_x g,
                   snd pos + (snd dpxs * (real s2 - 1)) / 2
                     - ((real_of_int (snd rep) - 1) / 2) * spec_pixel_size_x g)
         \<and> (da_shape (hd ds) = [1, 1] \<longrightarrow>
              md_pos img =
                Some (fst pos + ((real_of_int (fst rep) - 1) / 2) * spec_pixel_size_x g,
                      snd pos - ((real_of_int (snd rep) - 1) / 2) * spec_pixel_size_x g))))
   \<and> (assembleTiles g rep ds = Inr timg \<and> da_shape (hd ds) = [T, T] \<longrightarrow>
        (\<exists>pos dpxs. md_pos (hd ds) = Some pos \<and> md_pxs (hd ds) = Some dpxs
           \<and> top_left (hd ds)
               = Inr (fst pos - (fst dpxs * (real T - 1)) / 2, snd pos + (snd dpxs * (real T - 1)) / 2)
           \<and> md_pos timg =
               Some (fst pos - (fst dpxs * (real T - 1)) / 2
                       + ((real_of_int (fst rep) * real T - 1) / 2) * (spec_pixel_size_x g / real T),
                     snd pos + (snd dpxs * (real T - 1)) / 2
                       - ((real_of_int (snd rep) * real T - 1) / 2) * (spec_pixel_size_x g / real T))
           \<and> (dpxs = (spec_pixel_size_x g / real T, spec_pixel_size_x g / real T) \<longrightarrow>
                md_pos timg =
                  Some (fst pos + ((real_of_int (fst rep) - 1) / 2) * spec_pixel_size_x g,
                        snd pos - ((real_of_int (snd rep) - 1) / 2) * spec_pixel_size_x g))))"
proof (intro conjI impI)
  assume a: "assemble2DData g rep ds = Inr img \<and> da_shape (hd ds) \<noteq> [0]"
  then obtain c pxs where 1: "get_center_pxs g rep (1, 1) (hd ds) = Inr (c, pxs)"
      and 2: "md_pos img = Some c"
    using assemble2DData_md by blast
  from get_center_pxs_Inr [OF 1] obtain tl0 where 3: "top_left (hd ds) = Inr tl0"
    and 4: "pxs = (spec_pixel_size_x g, spec_pixel_size_x g)"
    and 5: "c = (fst tl0 + (fst pxs * (real_of_int (fst rep * fst (1::int, 1::int)) - 1)) / 2,
            snd tl0 - (snd pxs * (real_of_int (snd rep * snd (1::int, 1::int)) - 1)) / 2)"
    by auto
  from top_left_Inr [OF 3] obtain pos dpxs s1 s2 where 6: "md_pos (hd ds) = Some pos"
    "md_pxs (hd ds) = Some dpxs" "from_end (da_shape (hd ds)) 1 = Inr s1"
    "from_end (da_shape (hd ds)) 2 = Inr s2"
    and 7: "tl0 = (fst pos - (fst dpxs * (real s1 - 1)) / 2, snd pos + (snd dpxs * (real s2 - 1)) / 2)"
    by blast
  have 8: "md_pos img =
             Some (fst pos - (fst dpxs * (real s1 - 1)) / 2
                     + ((real_of_int (fst rep) - 1) / 2) * spec_pixel_size_x g,
                   snd pos + (snd dpxs * (real s2 - 1)) / 2
                     - ((real_of_int (snd rep) - 1) / 2) * spec_pixel_size_x g)"
    using 2 4 5 7 by (simp add: algebra_simps)
  have 9: "md_pos img =
                Some (fst pos + ((real_of_int (fst rep) - 1) / 2) * spec_pixel_size_x g,
                      snd pos - ((real_of_int (snd rep) - 1) / 2) * spec_pixel_size_x g)"
    if "da_shape (hd ds) = [1, 1]"
    using that 6(3,4) 8 by (simp add: from_end_def)
  from 3 6 7 8 9
  show "\<exists>pos dpxs s1 s2. md_pos (hd ds) = Some pos \<and> md_pxs (hd ds) = Some dpxs
         \<and> from_end (da_shape (hd ds)) 1 = Inr s1 \<and> from_end (da_shape (hd ds)) 2 = Inr s2
         \<and> top_left (hd ds)
             = Inr (fst pos - (fst dpxs * (real s1 - 1)) / 2, snd pos + (snd dpxs * (real s2 - 1)) / 2)
         \<and> md_pos img =
             Some (fst pos - (fst dpxs * (real s1 - 1)) / 2
                     + ((real_of_int (fst rep) - 1) / 2) * spec_pixel_size_x g,
                   snd pos + (snd dpxs * (real s2 - 1)) / 2
                     - ((real_of_int (snd rep) - 1) / 2) * spec_pixel_size_x g)
         \<and> (da_shape (hd ds) = [1, 1] \<longrightarrow>
              md_pos img =
                Some (fst pos + ((real_of_int (fst rep) - 1) / 2) * spec_pixel_size_x g,
                      snd pos - ((real_of_int (snd rep) - 1) / 2) * spec_pixel_size_x g))"
    by blast
next
  assume t: "assembleTiles g rep ds = Inr timg \<and> da_shape (hd ds) = [T, T]"
  then obtain T' S' c pxs where 1: "da_shape (hd ds) = [T', S']"
      and 2: "get_center_pxs g rep (int T', int S') (hd ds) = Inr (c, pxs)"
      and 3: "md_pos timg = Some c"
    using assembleTiles_md by blast
  from 1 t have e: "T' = T" "S' = T" by simp_all
  from get_center_pxs_Inr [OF 2] e obtain tl0 where 4: "top_left (hd ds) = Inr tl0"
    and 5: "pxs = (spec_pixel_size_x g / real T, spec_pixel_size_x g / real T)"
    and 6: "c = (fst tl0 + (fst pxs * (real_of_int (fst rep * int T) - 1)) / 2,
            snd tl0 - (snd pxs * (real_of_int (snd rep * int T) - 1)) / 2)"
    and 7: "T \<noteq> 0"
    by auto
  from t have sh: "da_shape (hd ds) = [T, T]" by simp
  from top_left_tile [OF sh 4] obtain pos dpxs where 8: "md_pos (hd ds) = Some pos"
    "md_pxs (hd ds) = Some dpxs"
    "tl0 = (fst pos - (fst dpxs * (real T - 1)) / 2, snd pos + (snd dpxs * (real T - 1)) / 2)"
    by blast
  have 9: "md_pos timg =
               Some (fst pos - (fst dpxs * (real T - 1)) / 2
                       + ((real_of_int (fst rep) * real T - 1) / 2) * (spec_pixel_size_x g / real T),
                     snd pos + (snd dpxs * (real T - 1)) / 2
                       - ((real_of_int (snd rep) * real T - 1) / 2) * (spec_pixel_size_x g / real T))"
    using 3 5 6 8(3) by (simp add: algebra_simps)
  have 10: "md_pos timg =
                  Some (fst pos + ((real_of_int (fst rep) - 1) / 2) * spec_pixel_size_x g,
                        snd pos - ((real_of_int (snd rep) - 1) / 2) * spec_pixel_size_x g)"
    if "dpxs = (spec_pixel_size_x g / real T, spec_pixel_size_x g / real T)"
    using that 9 7 by (simp add: field_simps)
  from 4 8 9 10
  show "\<exists>pos dpxs. md_pos (hd ds) = Some pos \<and> md_pxs (hd ds) = Some dpxs
           \<and> top_left (hd ds)
               = Inr (fst pos - (fst dpxs * (real T - 1)) / 2, snd pos + (snd dpxs * (real T - 1)) / 2)
           \<and> md_pos timg =
               Some (fst pos - (fst dpxs * (real T - 1)) / 2
                       + ((real_of_int (fst rep) * real T - 1) / 2) * (spec_pixel_size_x g / real T),
                     snd pos + (snd dpxs * (real T - 1)) / 2
                       - ((real_of_int (snd rep) * real T - 1) / 2) * (spec_pixel_size_x g / real T))
           \<and> (dpxs = (spec_pixel_size_x g / real T, spec_pixel_size_x g / real T) \<longrightarrow>
                md_pos timg =
                  Some (fst pos + ((real_of_int (fst rep) - 1) / 2) * spec_pixel_size_x g,
                        snd pos - ((real_of_int (snd rep) - 1) / 2) * spec_pixel_size_x g))"
    by blast
qed

theorem C1_center_witness:
  "assemble2DData \<lparr>g_roi = (0, 0, 1, 1), g_rep = (2, 2), g_eshape = (4, 4), g_epxs = (1, 1)\<rparr> (2, 2)
     [\<lparr>da_shape = [1, 1], da_values = [7], md_pos = Some (- 1, 1), md_pxs = Some (1, 1),
       md_acq_date = None, md_dwell = None\<rparr>,
      \<lparr>da_shape = [1, 2], da_values = [8, 9], md_pos = Some (0, 1), md_pxs = Some (1, 1),
       md_acq_date = None, md_dwell = None\<rparr>,
      \<lparr>da_shape = [1, 1], da_values = [10], md_pos = Some (1, - 1), md_pxs = Some (1, 1),
       md_acq_date = None, md_dwell = None\<rparr>]
   = Inr \<lparr>da_shape = [2, 2], da_values = [7, 8, 9, 10], md_pos = Some (0, 0), md_pxs = Some (2, 2),
       md_acq_date = None, md_dwell = None\<rparr>
   \<and> Some (0, 0)
     = Some (- 1 + ((real_of_int 2 - 1) / 2)
               * spec_pixel_size_x \<lparr>g_roi = (0, 0, 1, 1), g_rep = (2, 2), g_eshape = (4, 4), g_epxs = (1, 1)\<rparr>,
             1 - ((real_of_int 2 - 1) / 2)
               * spec_pixel_size_x \<lparr>g_roi = (0, 0, 1, 1), g_rep = (2, 2), g_eshape = (4, 4), g_epxs = (1, 1)\<rparr>)
   \<and> assembleTiles \<lparr>g_roi = (0, 0, 1, 1), g_rep = (2, 1), g_eshape = (4, 2), g_epxs = (1, 1)\<rparr> (2, 1)
     [\<lparr>da_shape = [2, 2], da_values = [1, 2, 3, 4], md_pos = Some (- 1, 0), md_pxs = Some (1, 1),
       md_acq_date = None, md_dwell = None\<rparr>,
      \<lparr>da_shape = [2, 2], da_values = [5, 6, 7, 8], md_pos = Some (1, 0), md_pxs = Some (1, 1),
       md_acq_date = None, md_dwell = None\<rparr>]
   = Inr \<lparr>da_shape = [2, 4], da_values = [1, 2, 5, 6, 3, 4, 7, 8], md_pos = Some (0, 0),
       md_pxs = Some (1, 1), md_acq_date = None, md_dwell = None\<rparr>
   \<and> Some (0, 0)
     = Some (- 1 + ((real_of_int 2 - 1) / 2)
               * spec_pixel_size_x \<lparr>g_roi = (0, 0, 1, 1), g_rep = (2, 1), g_eshape = (4, 2), g_epxs = (1, 1)\<rparr>,
             0 - ((real_of_int 1 - 1) / 2)
               * spec_pixel_size_x \<lparr>g_roi = (0, 0, 1, 1), g_rep = (2, 1), g_eshape = (4, 2), g_epxs = (1, 1)\<rparr>)"
proof -
  let ?g = "\<lparr>g_roi = (0, 0, 1, 1), g_rep = (2, 2), g_eshape = (4, 4), g_epxs = (1, 1)\<rparr>"
  let ?d0 = "\<lparr>da_shape = [1, 1], da_values = [7], md_pos = Some (- 1, 1), md_pxs = Some (1, 1),
       md_acq_date = None, md_dwell = None\<rparr>"
  let ?ds = "[?d0,
      \<lparr>da_shape = [1, 2], da_values = [8, 9], md_pos = Some (0, 1), md_pxs = Some (1, 1),
       md_acq_date = None, md_dwell = None\<rparr>,
      \<lparr>da_shape = [1, 1], da_values = [10], md_pos = Some (1, - 1), md_pxs = Some (1, 1),
       md_acq_date = None, md_dwell = None\<rparr>]"
  let ?img = "\<lparr>da_shape = [2, 2], da_values = [7, 8, 9, 10], md_pos = Some (0, 0), md_pxs = Some (2, 2),
       md_acq_date = None, md_dwell = None\<rparr>"
  let ?tg = "\<lparr>g_roi = (0, 0, 1, 1), g_rep = (2, 1), g_eshape = (4, 2), g_epxs = (1, 1)\<rparr>"
  let ?t0 = "\<lparr>da_shape = [2, 2], da_values = [1, 2, 3, 4], md_pos = Some (- 1, 0), md_pxs = Some (1, 1),
       md_acq_date = None, md_dwell = None\<rparr>"
  let ?ts = "[?t0,
      \<lparr>da_shape = [2, 2], da_values = [5, 6, 7, 8], md_pos = Some (1, 0), md_pxs = Some (1, 1),
       md_acq_date = None, md_dwell = None\<rparr>]"
  let ?timg = "\<lparr>da_shape = [2, 4], da_values = [1, 2, 5, 6, 3, 4, 7, 8], md_pos = Some (0, 0),
       md_pxs = Some (1, 1), md_acq_date = None, md_dwell = None\<rparr>"
  have 1: "assemble2DData ?g (2, 2) ?ds = Inr ?img"
    by (simp add: assemble2DData_def get_center_pxs_def top_left_def from_end_def
          getPixelSize_def Let_def)
  have 2: "da_shape (hd ?ds) \<noteq> [0]" "da_shape (hd ?ds) = [1, 1]" "md_pos (hd ?ds) = Some (- 1, 1)"
    by simp_all
  have 3: "assembleTiles ?tg (2, 1) ?ts = Inr ?timg"
    by (simp add: assembleTiles_def tile_values_def tile_row_def get_center_pxs_def top_left_def
          from_end_def getPixelSize_def Let_def upt_rec)
  have 4: "da_shape (hd ?ts) = [2, 2]" "md_pos (hd ?ts) = Some (- 1, 0)" "md_pxs (hd ?ts) = Some (1, 1)"
    by simp_all
  have 5: "(1, 1) = (spec_pixel_size_x ?tg / real (2::nat), spec_pixel_size_x ?tg / real (2::nat))"
    by (simp add: spec_pixel_size_x_def)
  note c = C1_center [where g = ?g and rep = "(2, 2)" and ds = ?ds and img = ?img
                        and timg = ?timg and T = 2]
  note t = C1_center [where g = ?tg and rep = "(2, 1)" and ds = ?ts and timg = ?timg
                        and img = ?img and T = 2]
  from c 1 2 have 6: "md_pos ?img
     = Some (- 1 + ((real_of_int 2 - 1) / 2) * spec_pixel_size_x ?g,
             1 - ((real_of_int 2 - 1) / 2) * spec_pixel_size_x ?g)"
    by auto
  from t 3 4 5 have 7: "md_pos ?timg
     = Some (- 1 + ((real_of_int 2 - 1) / 2) * spec_pixel_size_x ?tg,
             0 - ((real_of_int 1 - 1) / 2) * spec_pixel_size_x ?tg)"
    by auto
  from 1 3 6 7 show ?thesis by simp
qed

theorem C3_pixel_size_witness:
  "assemble2DData \<lparr>g_roi = (0, 0, 1, 1), g_rep = (2, 2), g_eshape = (4, 4), g_epxs = (1, 1)\<rparr> (2, 2)
     [\<lparr>da_shape = [1, 1], da_values = [7], md_pos = Some (- 1, 1), md_pxs = Some (1, 1),
       md_acq_date = None, md_dwell = None\<rparr>,
      \<lparr>da_shape = [1, 2], da_values = [8, 9], md_pos = Some (0, 1), md_pxs = Some (1, 1),
       md_acq_date = None, md_dwell = None\<rparr>,
      \<lparr>da_shape = [1, 1], da_values = [10], md_pos = Some (1, - 1), md_pxs = Some (1, 1),
       md_acq_date = None, md_dwell = None\<rparr>]
   = Inr \<lparr>da_shape = [2, 2], da_values = [7, 8, 9, 10], md_pos = Some (0, 0), md_pxs = Some (2, 2),
       md_acq_date = None, md_dwell = None\<rparr>
   \<and> md_pxs \<lparr>da_shape = [2, 2], da_values = [7, 8, 9, 10], md_pos = Some (0, 0), md_pxs = Some (2, 2),
       md_acq_date = None, md_dwell = None\<rparr>
     = Some (spec_pixel_size_x \<lparr>g_roi = (0, 0, 1, 1), g_rep = (2, 2), g_eshape = (4, 4), g_epxs = (1, 1)\<rparr>,
             spec_pixel_size_y \<lparr>g_roi = (0, 0, 1, 1), g_rep = (2, 2), g_eshape = (4, 4), g_epxs = (1, 1)\<rparr>)
   \<and> assembleTiles \<lparr>g_roi = (0, 0, 1, 1), g_rep = (2, 1), g_eshape = (4, 2), g_epxs = (1, 1)\<rparr> (2, 1)
     [\<lparr>da_shape = [2, 2], da_values = [1, 2, 3, 4], md_pos = Some (- 1, 0), md_pxs = Some (1, 1),
       md_acq_date = None, md_dwell = None\<rparr>,
      \<lparr>da_shape = [2, 2], da_values = [5, 6, 7, 8], md_pos = Some (1, 0), md_pxs = Some (1, 1),
       md_acq_date = None, md_dwell = None\<rparr>]
   = Inr \<lparr>da_shape = [2, 4], da_values = [1, 2, 5, 6, 3, 4, 7, 8], md_pos = Some (0, 0),
       md_pxs = Some (1, 1), md_acq_date = None, md_dwell = None\<rparr>"
proof -
  let ?g = "\<lparr>g_roi = (0, 0, 1, 1), g_rep = (2, 2), g_eshape = (4, 4), g_epxs = (1, 1)\<rparr>"
  let ?ds = "[\<lparr>da_shape = [1, 1], da_values = [7], md_pos = Some (- 1, 1), md_pxs = Some (1, 1),
       md_acq_date = None, md_dwell = None\<rparr>,
      \<lparr>da_shape = [1, 2], da_values = [8, 9], md_pos = Some (0, 1), md_pxs = Some (1, 1),
       md_acq_date = None, md_dwell = None\<rparr>,
      \<lparr>da_shape = [1, 1], da_values = [10], md_pos = Some (1, - 1), md_pxs = Some (1, 1),
       md_acq_date = None, md_dwell = None\<rparr>]"
  let ?img = "\<lparr>da_shape = [2, 2], da_values = [7, 8, 9, 10], md_pos = Some (0, 0), md_pxs = Some (2, 2),
       md_acq_date = None, md_dwell = None\<rparr>"
  let ?tg = "\<lparr>g_roi = (0, 0, 1, 1), g_rep = (2, 1), g_eshape = (4, 2), g_epxs = (1, 1)\<rparr>"
  have 1: "assemble2DData ?g (2, 2) ?ds = Inr ?img"
    by (simp add: assemble2DData_def get_center_pxs_def top_left_def from_end_def
          getPixelSize_def Let_def)
  have 2: "da_shape (hd ?ds) \<noteq> [0]" by simp
  have 3: "spec_pixel_size_y ?g = spec_pixel_size_x ?g"
    by (simp add: spec_pixel_size_x_def spec_pixel_size_y_def)
  have 4: "md_pxs ?img = Some (spec_pixel_size_x ?g, spec_pixel_size_y ?g)"
    using C3_pixel_size [where g = ?g and rep = "(2, 2)" and ds = ?ds and img = ?img] 1 2 3
    by blast
  have 5: "assembleTiles ?tg (2, 1)
     [\<lparr>da_shape = [2, 2], da_values = [1, 2, 3, 4], md_pos = Some (- 1, 0), md_pxs = Some (1, 1),
       md_acq_date = None, md_dwell = None\<rparr>,
      \<lparr>da_shape = [2, 2], da_values = [5, 6, 7, 8], md_pos = Some (1, 0), md_pxs = Some (1, 1),
       md_acq_date = None, md_dwell = None\<rparr>]
   = Inr \<lparr>da_shape = [2, 4], da_values = [1, 2, 5, 6, 3, 4, 7, 8], md_pos = Some (0, 0),
       md_pxs = Some (1, 1), md_acq_date = None, md_dwell = None\<rparr>"
    by (simp add: assembleTiles_def tile_values_def tile_row_def get_center_pxs_def top_left_def
          from_end_def getPixelSize_def Let_def upt_rec)
  from 1 4 5 show ?thesis by blast
qed

lemma length_linspace: "length (linspace a b n) = n"
  by (simp add: linspace_def)

lemma linspace_nth:
  "i < n \<Longrightarrow> linspace a b n ! i = (if n = 1 then a else a + real i * ((b - a) / real (n - 1)))"
  by (auto simp: linspace_def)

text \<open>The samples between the inset limits are the pixel centres.\<close>

lemma linspace_centres:
  assumes "i < nat n"
  shows "linspace (s * ((l + ((r - l) / real_of_int n) / 2) - 0.5))
                  (s * ((r - ((r - l) / real_of_int n) / 2) - 0.5)) (nat n) ! i
         = s * (pixel_centre l r n i - 0.5)"
proof (cases "nat n = 1")
  case True
  with assms show ?thesis by (simp add: linspace_nth pixel_centre_def)
next
  case False
  with assms have n: "2 \<le> n" by simp
  then have n1: "real (nat n - 1) = real_of_int n - 1" by simp
  have "real_of_int n \<noteq> 0" "real_of_int n - 1 \<noteq> 0" using n by auto
  then show ?thesis using assms False
    by (simp add: linspace_nth n1 pixel_centre_def field_simps)
qed

lemma getSpotPositions_Inr:
  assumes "0 < fst (g_rep g)" "0 < snd (g_rep g)" "g_roi g = (l, t, r, b)"
  shows "getSpotPositions g =
     Inr (map (\<lambda>y. map (\<lambda>x. (x, y))
            (linspace (real_of_int (fst (g_eshape g)) * ((l + ((r - l) / real_of_int (fst (g_rep g))) / 2) - 0.5))
                      (real_of_int (fst (g_eshape g)) * ((r - ((r - l) / real_of_int (fst (g_rep g))) / 2) - 0.5))
                      (nat (fst (g_rep g)))))
          (linspace (real_of_int (snd (g_eshape g)) * ((t + ((b - t) / real_of_int (snd (g_rep g))) / 2) - 0.5))
                    (real_of_int (snd (g_eshape g)) * ((b - ((b - t) / real_of_int (snd (g_rep g))) / 2) - 0.5))
                    (nat (snd (g_rep g)))))"
  using assms by (simp add: getSpotPositions_def Let_def)

text \<open>
  C4. For a repetition of positive integers the beam grid is an array of \<open>ry\<close> rows of
  \<open>rx\<close> points, Y being the first index and X the second, and the point at \<open>(iy, ix)\<close>
  is the centre \<open>(u, v)\<close> of pixel \<open>(ix, iy)\<close> of the ROI mapped to the translation
  \<open>(Sx * (u - 0.5), Sy * (v - 0.5))\<close>. The centres start half a pixel inside the ROI,
  at \<open>l + w / 2\<close>, end at \<open>r - w / 2\<close> and are one pixel apart.
\<close>

theorem C4_spot_positions:
  assumes "0 < fst (g_rep g)" "0 < snd (g_rep g)" "g_roi g = (l, t, r, b)"
  shows "\<exists>pos. getSpotPositions g = Inr pos
     \<and> length pos = nat (snd (g_rep g))
     \<and> (\<forall>iy < nat (snd (g_rep g)). length (pos ! iy) = nat (fst (g_rep g))
          \<and> (\<forall>ix < nat (fst (g_rep g)).
                pos ! iy ! ix =
                  (real_of_int (fst (g_eshape g)) * (pixel_centre l r (fst (g_rep g)) ix - 0.5),
                   real_of_int (snd (g_eshape g)) * (pixel_centre t b (snd (g_rep g)) iy - 0.5))))
     \<and> pixel_centre l r (fst (g_rep g)) 0 = l + ((r - l) / real_of_int (fst (g_rep g))) / 2
     \<and> pixel_centre l r (fst (g_rep g)) (nat (fst (g_rep g)) - 1)
           = r - ((r - l) / real_of_int (fst (g_rep g))) / 2
     \<and> (\<forall>i. pixel_centre l r (fst (g_rep g)) (Suc i) - pixel_centre l r (fst (g_rep g)) i
           = (r - l) / real_of_int (fst (g_rep g)))"
proof -
  let ?rx = "nat (fst (g_rep g))" and ?ry = "nat (snd (g_rep g))"
  let ?xs = "linspace (real_of_int (fst (g_eshape g)) * ((l + ((r - l) / real_of_int (fst (g_rep g))) / 2) - 0.5))
                      (real_of_int (fst (g_eshape g)) * ((r - ((r - l) / real_of_int (fst (g_rep g))) / 2) - 0.5))
                      ?rx"
  let ?ys = "linspace (real_of_int (snd (g_eshape g)) * ((t + ((b - t) / real_of_int (snd (g_rep g))) / 2) - 0.5))
                    (real_of_int (snd (g_eshape g)) * ((b - ((b - t) / real_of_int (snd (g_rep g))) / 2) - 0.5))
                    ?ry"
  let ?pos = "map (\<lambda>y. map (\<lambda>x. (x, y)) ?xs) ?ys"
  have p: "getSpotPositions g = Inr ?pos" by (rule getSpotPositions_Inr [OF assms])
  have len: "length ?pos = ?ry" by (simp only: length_map length_linspace)
  have row: "length (?pos ! iy) = ?rx
       \<and> (\<forall>ix < ?rx. ?pos ! iy ! ix =
                  (real_of_int (fst (g_eshape g)) * (pixel_centre l r (fst (g_rep g)) ix - 0.5),
                   real_of_int (snd (g_eshape g)) * (pixel_centre t b (snd (g_rep g)) iy - 0.5)))"
    if iy: "iy < ?ry" for iy
  proof (intro conjI allI impI)
    from iy have r: "?pos ! iy = map (\<lambda>x. (x, ?ys ! iy)) ?xs"
      by (simp only: nth_map length_linspace)
    then show "length (?pos ! iy) = ?rx" by (simp only: length_map length_linspace)
    fix ix assume ix: "ix < ?rx"
    then have "?pos ! iy ! ix = (?xs ! ix, ?ys ! iy)"
      by (simp only: r nth_map length_linspace)
    then show "?pos ! iy ! ix =
                  (real_of_int (fst (g_eshape g)) * (pixel_centre l r (fst (g_rep g)) ix - 0.5),
                   real_of_int (snd (g_eshape g)) * (pixel_centre t b (snd (g_rep g)) iy - 0.5))"
      by (simp only: linspace_centres [OF ix] linspace_centres [OF iy])
  qed
  have c0: "pixel_centre l r (fst (g_rep g)) 0 = l + ((r - l) / real_of_int (fst (g_rep g))) / 2"
    by (simp add: pixel_centre_def)
  have "real (nat (fst (g_rep g)) - 1) = real_of_int (fst (g_rep g)) - 1"
    using assms(1) by simp
  then have c1: "pixel_centre l r (fst (g_rep g)) (nat (fst (g_rep g)) - 1)
           = r - ((r - l) / real_of_int (fst (g_rep g))) / 2"
    using assms(1) by (simp add: pixel_centre_def field_simps)
  have c2: "\<forall>i. pixel_centre l r (fst (g_rep g)) (Suc i) - pixel_centre l r (fst (g_rep g)) i
           = (r - l) / real_of_int (fst (g_rep g))"
    using assms(1) by (simp add: pixel_centre_def field_simps)
  from p len row c0 c1 c2 show ?thesis by blast
qed

theorem C4_spot_positions_witness:
  "0 < fst (g_rep \<lparr>g_roi = (0, 0, 1, 1), g_rep = (2, 3), g_eshape = (4, 6), g_epxs = (1, 1)\<rparr>)
   \<and> 0 < snd (g_rep \<lparr>g_roi = (0, 0, 1, 1), g_rep = (2, 3), g_eshape = (4, 6), g_epxs = (1, 1)\<rparr>)
   \<and> getSpotPositions \<lparr>g_roi = (0, 0, 1, 1), g_rep = (2, 3), g_eshape = (4, 6), g_epxs = (1, 1)\<rparr>
       = Inr [[(- 1, - 2), (1, - 2)], [(- 1, 0), (1, 0)], [(- 1, 2), (1, 2)]]
   \<and> [[(- 1, - 2), (1, - 2)], [(- 1, 0), (1, 0)], [(- 1, 2), (1, 2)]] ! 2 ! 1
       = (real_of_int 4 * (pixel_centre 0 1 2 1 - 0.5), real_of_int 6 * (pixel_centre 0 1 3 2 - 0.5))"
proof -
  let ?g = "\<lparr>g_roi = (0, 0, 1, 1), g_rep = (2, 3), g_eshape = (4, 6), g_epxs = (1, 1)\<rparr>"
  have h: "0 < fst (g_rep ?g)" "0 < snd (g_rep ?g)" "g_roi ?g = (0, 0, 1, 1)" by simp_all
  have e: "getSpotPositions ?g = Inr [[(- 1, - 2), (1, - 2)], [(- 1, 0), (1, 0)], [(- 1, 2), (1, 2)]]"
    by (simp add: getSpotPositions_def linspace_def Let_def upt_rec)
  obtain pos where 1: "getSpotPositions ?g = Inr pos"
    and 2: "\<forall>iy < nat (snd (g_rep ?g)). length (pos ! iy) = nat (fst (g_rep ?g))
          \<and> (\<forall>ix < nat (fst (g_rep ?g)).
                pos ! iy ! ix =
                  (real_of_int (fst (g_eshape ?g)) * (pixel_centre 0 1 (fst (g_rep ?g)) ix - 0.5),
                   real_of_int (snd (g_eshape ?g)) * (pixel_centre 0 1 (snd (g_rep ?g)) iy - 0.5)))"
    using C4_spot_positions [OF h] by blast
  from 1 e have 3: "pos = [[(- 1, - 2), (1, - 2)], [(- 1, 0), (1, 0)], [(- 1, 2), (1, 2)]]"
    by simp
  have "2 < nat (snd (g_rep ?g))" by simp
  with 2 have "\<forall>ix < nat (fst (g_rep ?g)).
                pos ! 2 ! ix =
                  (real_of_int (fst (g_eshape ?g)) * (pixel_centre 0 1 (fst (g_rep ?g)) ix - 0.5),
                   real_of_int (snd (g_eshape ?g)) * (pixel_centre 0 1 (snd (g_rep ?g)) 2 - 0.5))"
    by blast
  moreover have "1 < nat (fst (g_rep ?g))" by simp
  ultimately have "pos ! 2 ! 1 =
                  (real_of_int (fst (g_eshape ?g)) * (pixel_centre 0 1 (fst (g_rep ?g)) 1 - 0.5),
                   real_of_int (snd (g_eshape ?g)) * (pixel_centre 0 1 (snd (g_rep ?g)) 2 - 0.5))"
    by blast
  then have "[[(- 1, - 2), (1, - 2)], [(- 1, 0), (1, 0)], [(- 1, 2), (1, 2)]] ! 2 ! 1
       = (real_of_int 4 * (pixel_centre 0 1 2 1 - 0.5), real_of_int 6 * (pixel_centre 0 1 3 2 - 0.5))"
    unfolding 3 by simp
  with h e show ?thesis by blast
qed

subsection \<open>The data callback\<close>

lemma onData_set:
  "onData n d st = Inr st' \<Longrightarrow> acq_complete st ! n \<Longrightarrow>
     acq_data st' = acq_data st \<and> acq_complete st' = acq_complete st \<and> acq_state st' = acq_state st"
  by (auto simp: onData_def split: if_splits)

lemma onData_clear:
  "onData n d st = Inr st' \<Longrightarrow> \<not> acq_complete st ! n \<Longrightarrow>
     (acq_data st' = acq_data st \<and> acq_complete st' = acq_complete st)
   \<or> (acq_data st' = (acq_data st)[n := acq_data st ! n @ [d]]
        \<and> acq_complete st' = (acq_complete st)[n := True])"
  by (auto simp: onData_def split: if_splits)

lemma apply_event_length:
  "length (acq_complete (apply_event ev st)) = length (acq_complete st)
   \<and> length (acq_data (apply_event ev st)) = length (acq_data st)"
  by (cases ev) (auto simp: onData_def cancelAcquisition_def split: sum.splits if_splits)

lemma apply_event_at_most_one:
  assumes "n < length (acq_complete st)" "n < length (acq_data st)"
  shows "(acq_complete st ! n \<longrightarrow>
            acq_complete (apply_event ev st) ! n \<and> acq_data (apply_event ev st) ! n = acq_data st ! n)
       \<and> (\<not> acq_complete st ! n \<longrightarrow>
            acq_data (apply_event ev st) ! n = acq_data st ! n
          \<or> acq_complete (apply_event ev st) ! n
             \<and> length (acq_data (apply_event ev st) ! n) = length (acq_data st ! n) + 1)"
proof (cases ev)
  case (Data m d)
  show ?thesis
  proof (cases "m = n")
    case True
    with Data assms show ?thesis
      by (auto simp: onData_def split: sum.splits if_splits)
  next
    case False
    with Data assms show ?thesis
      by (auto simp: onData_def split: sum.splits if_splits)
  qed
next
  case Cancel
  with assms show ?thesis by (simp add: cancelAcquisition_def)
qed

lemma run_events_at_most_one:
  assumes "n < length (acq_complete st)" "n < length (acq_data st)"
  shows "length (acq_data (run_events evs st) ! n)
           \<le> length (acq_data st ! n) + (if acq_complete st ! n then 0 else 1)"
  using assms
proof (induction evs arbitrary: st)
  case Nil
  then show ?case by (simp add: run_events_def)
next
  case (Cons ev evs)
  let ?st1 = "apply_event ev st"
  have r: "run_events (ev # evs) st = run_events evs ?st1"
    by (simp add: run_events_def)
  have len: "n < length (acq_complete ?st1)" "n < length (acq_data ?st1)"
    using Cons.prems apply_event_length [of ev st] by simp_all
  from Cons.IH [OF len] apply_event_at_most_one [OF Cons.prems, of ev] r
  show ?case by (auto split: if_splits)
qed

text \<open>
  C7. A sample whose acquisition date (0 when it has none) is before the start date
  recorded for the current pixel is dropped with one warning: the callback returns without
  an error, no accumulator and no completion event changes, the trigger is not notified
  and the state of the acquisition stays as it was.
\<close>

theorem C7_stale_data:
  assumes "n < length (acq_complete st)" "n < length (acq_data st)"
    and "acq_min_date st = Some start"
    and "(case md_acq_date data of None \<Rightarrow> 0 | Some d \<Rightarrow> d) < start"
  shows "onData n data st = Inr (st\<lparr>warnings := warnings st + 1\<rparr>)
     \<and> acq_data (apply_event (Data n data) st) = acq_data st
     \<and> acq_complete (apply_event (Data n data) st) = acq_complete st
     \<and> notified (apply_event (Data n data) st) = notified st
     \<and> acq_state (apply_event (Data n data) st) = acq_state st"
  using assms by (simp add: onData_def too_early_def)

text \<open>
  C10. For a detector \<open>n\<close> whose completion event is clear, a sample that is not too
  early is appended to its accumulator and sets the event; once the event is set, a
  sample changes nothing (and one that is not too early leaves the whole state as it is).
  So whatever the dataflows deliver and whatever is cancelled after the events were
  cleared, the accumulator of \<open>n\<close> grows by at most one data array.
\<close>

theorem C10_one_per_pixel:
  assumes "n < length (acq_complete st)" "n < length (acq_data st)"
  shows "(\<not> acq_complete st ! n \<and> \<not> too_early st d \<longrightarrow>
            (\<exists>st'. onData n d st = Inr st'
               \<and> acq_data st' = (acq_data st)[n := acq_data st ! n @ [d]]
               \<and> acq_complete st' ! n))
       \<and> (acq_complete st ! n \<longrightarrow>
            acq_data (apply_event (Data n d) st) = acq_data st
            \<and> acq_complete (apply_event (Data n d) st) ! n
            \<and> (\<not> too_early st d \<longrightarrow> onData n d st = Inr st))
       \<and> length (acq_data (run_events evs (st\<lparr>acq_complete := map (\<lambda>_. False) (acq_complete st)\<rparr>)) ! n)
            \<le> length (acq_data st ! n) + 1"
proof (intro conjI impI)
  assume "\<not> acq_complete st ! n \<and> \<not> too_early st d"
  with assms show "\<exists>st'. onData n d st = Inr st'
               \<and> acq_data st' = (acq_data st)[n := acq_data st ! n @ [d]]
               \<and> acq_complete st' ! n"
    by (simp add: onData_def)
next
  assume s: "acq_complete st ! n"
  with assms show "acq_data (apply_event (Data n d) st) = acq_data st"
    by (simp add: onData_def)
  from s assms show "acq_complete (apply_event (Data n d) st) ! n"
    by (simp add: onData_def)
  assume "\<not> too_early st d"
  with s assms show "onData n d st = Inr st" by (simp add: onData_def)
next
  let ?st0 = "st\<lparr>acq_complete := map (\<lambda>_. False) (acq_complete st)\<rparr>"
  have "n < length (acq_complete ?st0)" "n < length (acq_data ?st0)" using assms by simp_all
  from run_events_at_most_one [OF this, of evs] assms
  show "length (acq_data (run_events evs ?st0) ! n) \<le> length (acq_data st ! n) + 1"
    by simp
qed

subsection \<open>Cancellation\<close>


text \<open>
  The rest of what the canceller does: when the state is FINISHED it returns false and
  leaves the engine, its outputs included, as it is; in any other state it returns true,
  the state becomes CANCELLED, every subscriber is unsubscribed, every completion event is
  set and the canceller waits for the end of the worker for up to 5 s; the outputs and the
  accumulators are not touched.
\<close>

lemma cancelAcquisition_effect:
  "(acq_state st = FINISHED \<longrightarrow> cancelAcquisition st = (st, False))
   \<and> (acq_state st \<noteq> FINISHED \<longrightarrow>
        snd (cancelAcquisition st)
      \<and> acq_state (fst (cancelAcquisition st)) = CANCELLED
      \<and> length (subscribed (fst (cancelAcquisition st))) = length (subscribed st)
      \<and> (\<forall>i < length (subscribed st). \<not> subscribed (fst (cancelAcquisition st)) ! i)
      \<and> length (acq_complete (fst (cancelAcquisition st))) = length (acq_complete st)
      \<and> (\<forall>i < length (acq_complete st). acq_complete (fst (cancelAcquisition st)) ! i)
      \<and> done_waits (fst (cancelAcquisition st)) = done_waits st @ [5]
      \<and> raw (fst (cancelAcquisition st)) = raw st
      \<and> acq_data (fst (cancelAcquisition st)) = acq_data st)"
  by (simp add: cancelAcquisition_def)

theorem C7_stale_data_witness:
  "onData 1 \<lparr>da_shape = [1, 1], da_values = [5], md_pos = None, md_pxs = None,
              md_acq_date = Some 9, md_dwell = None\<rparr>
     \<lparr>acq_state = RUNNING, acq_complete = [False, False], acq_data = [[], []],
      acq_min_date = Some 10, acq_done = False, subscribed = [True, True],
      synchronized = [False, True], raw = [], prog = \<lparr>prog_sum = 0, future_end = 0\<rparr>,
      translation = (0, 0), stage_position = (0, 0), stage_moves = [], slept = [],
      done_waits = [], notified = 1, warnings = 0\<rparr>
   = Inr \<lparr>acq_state = RUNNING, acq_complete = [False, False], acq_data = [[], []],
      acq_min_date = Some 10, acq_done = False, subscribed = [True, True],
      synchronized = [False, True], raw = [], prog = \<lparr>prog_sum = 0, future_end = 0\<rparr>,
      translation = (0, 0), stage_position = (0, 0), stage_moves = [], slept = [],
      done_waits = [], notified = 1, warnings = 1\<rparr>"
proof -
  let ?d = "\<lparr>da_shape = [1, 1], da_values = [5], md_pos = None, md_pxs = None,
              md_acq_date = Some 9, md_dwell = None\<rparr>"
  let ?st = "\<lparr>acq_state = RUNNING, acq_complete = [False, False], acq_data = [[], []],
      acq_min_date = Some 10, acq_done = False, subscribed = [True, True],
      synchronized = [False, True], raw = [], prog = \<lparr>prog_sum = 0, future_end = 0\<rparr>,
      translation = (0, 0), stage_position = (0, 0), stage_moves = [], slept = [],
      done_waits = [], notified = 1, warnings = 0\<rparr>"
  have h: "1 < length (acq_complete ?st)" "1 < length (acq_data ?st)"
    "acq_min_date ?st = Some 10" "(case md_acq_date ?d of None \<Rightarrow> 0 | Some d \<Rightarrow> d) < 10"
    by simp_all
  from C7_stale_data [OF h] show ?thesis by simp
qed

theorem C10_one_per_pixel_witness:
  "length (acq_data (run_events
       [Data 1 \<lparr>da_shape = [1, 1], da_values = [5], md_pos = None, md_pxs = None,
                 md_acq_date = Some 9, md_dwell = None\<rparr>,
        Data 1 \<lparr>da_shape = [1, 1], da_values = [6], md_pos = None, md_pxs = None,
                 md_acq_date = Some 11, md_dwell = None\<rparr>,
        Data 1 \<lparr>da_shape = [1, 1], da_values = [7], md_pos = None, md_pxs = None,
                 md_acq_date = Some 12, md_dwell = None\<rparr>]
       (\<lparr>acq_state = RUNNING, acq_complete = [True, True], acq_data = [[], []],
         acq_min_date = Some 10, acq_done = False, subscribed = [True, True],
         synchronized = [False, True], raw = [], prog = \<lparr>prog_sum = 0, future_end = 0\<rparr>,
         translation = (0, 0), stage_position = (0, 0), stage_moves = [], slept = [],
         done_waits = [], notified = 1, warnings = 0\<rparr>\<lparr>acq_complete := map (\<lambda>_. False) [True, True]\<rparr>)) ! 1)
     \<le> 0 + 1
   \<and> acq_data (run_events
       [Data 1 \<lparr>da_shape = [1, 1], da_values = [5], md_pos = None, md_pxs = None,
                 md_acq_date = Some 9, md_dwell = None\<rparr>,
        Data 1 \<lparr>da_shape = [1, 1], da_values = [6], md_pos = None, md_pxs = None,
                 md_acq_date = Some 11, md_dwell = None\<rparr>,
        Data 1 \<lparr>da_shape = [1, 1], da_values = [7], md_pos = None, md_pxs = None,
                 md_acq_date = Some 12, md_dwell = None\<rparr>]
       \<lparr>acq_state = RUNNING, acq_complete = [False, False], acq_data = [[], []],
         acq_min_date = Some 10, acq_done = False, subscribed = [True, True],
         synchronized = [False, True], raw = [], prog = \<lparr>prog_sum = 0, future_end = 0\<rparr>,
         translation = (0, 0), stage_position = (0, 0), stage_moves = [], slept = [],
         done_waits = [], notified = 1, warnings = 0\<rparr>)
     = [[], [\<lparr>da_shape = [1, 1], da_values = [6], md_pos = None, md_pxs = None,
                 md_acq_date = Some 11, md_dwell = None\<rparr>]]"
proof -
  let ?st = "\<lparr>acq_state = RUNNING, acq_complete = [True, True], acq_data = [[], []],
         acq_min_date = Some 10, acq_done = False, subscribed = [True, True],
         synchronized = [False, True], raw = [], prog = \<lparr>prog_sum = 0, future_end = 0\<rparr>,
         translation = (0, 0), stage_position = (0, 0), stage_moves = [], slept = [],
         done_waits = [], notified = 1, warnings = 0\<rparr>"
  have h: "1 < length (acq_complete ?st)" "1 < length (acq_data ?st)" by simp_all
  have e: "acq_data (run_events
       [Data 1 \<lparr>da_shape = [1, 1], da_values = [5], md_pos = None, md_pxs = None,
                 md_acq_date = Some 9, md_dwell = None\<rparr>,
        Data 1 \<lparr>da_shape = [1, 1], da_values = [6], md_pos = None, md_pxs = None,
                 md_acq_date = Some 11, md_dwell = None\<rparr>,
        Data 1 \<lparr>da_shape = [1, 1], da_values = [7], md_pos = None, md_pxs = None,
                 md_acq_date = Some 12, md_dwell = None\<rparr>]
       \<lparr>acq_state = RUNNING, acq_complete = [False, False], acq_data = [[], []],
         acq_min_date = Some 10, acq_done = False, subscribed = [True, True],
         synchronized = [False, True], raw = [], prog = \<lparr>prog_sum = 0, future_end = 0\<rparr>,
         translation = (0, 0), stage_position = (0, 0), stage_moves = [], slept = [],
         done_waits = [], notified = 1, warnings = 0\<rparr>)
     = [[], [\<lparr>da_shape = [1, 1], da_values = [6], md_pos = None, md_pxs = None,
                 md_acq_date = Some 11, md_dwell = None\<rparr>]]"
    by (simp add: run_events_def onData_def too_early_def)
  from C10_one_per_pixel [OF h] e show ?thesis by simp
qed

subsection \<open>The time-correlator stream\<close>

lemma prepareHardware_Inr:
  assumes "prepareHardware g dwell dmax accept hw = Inr ((px_dt, nfr), hw')"
  shows "nfr = \<lceil>dwell / accept (min dwell dmax)\<rceil> \<and> nfr \<noteq> 0 \<and> px_dt = dwell / real_of_int nfr
       \<and> scanner_dwellTime hw' = accept px_dt \<and> tc_scanner_dwellTime hw' = dwell"
  using assms
  by (auto simp: prepareHardware_def Let_def split: sum.splits prod.splits if_splits)

lemma prepareHardware_ok:
  assumes "0 < dwell" "0 < accept (min dwell dmax)" "fst (g_rep g) \<noteq> 0" "snd (g_rep g) \<noteq> 0"
  shows "\<exists>px_dt nfr hw'. prepareHardware g dwell dmax accept hw = Inr ((px_dt, nfr), hw') \<and> 0 < nfr"
proof -
  have "\<exists>x. computeROISettings g = Inr x"
    using assms(3,4) by (cases "g_roi g") (simp add: computeROISettings_def Let_def)
  then obtain sc res tr where c: "computeROISettings g = Inr (sc, res, tr)"
    by (metis prod_cases3)
  have "0 < dwell / accept (min dwell dmax)" using assms by simp
  then have pos: "0 < \<lceil>dwell / accept (min dwell dmax)\<rceil>" by simp
  then have nz: "\<lceil>dwell / accept (min dwell dmax)\<rceil> \<noteq> 0" by linarith
  have a: "accept (min dwell dmax) \<noteq> 0" using assms(2) by simp
  have nz': "(\<lceil>dwell / accept (min dwell dmax)\<rceil> = 0) = False" using nz by simp
  show ?thesis
    unfolding prepareHardware_def c using pos
    by (simp add: Let_def a nz')
qed

lemma add_uint32_ones:
  "add_uint32 (replicate m (j mod 2 ^ 32)) (map (\<lambda>v. v mod 2 ^ 32) (replicate m 1))
     = replicate m ((j + 1) mod 2 ^ 32)"
  by (simp add: add_uint32_def zip_replicate mod_add_left_eq)

lemma frameThread_ones:
  assumes "da_values f = replicate m 1" "md_dwell f = Some dw"
  shows "frameThread (replicate k f)
           \<lparr>tc_raw = [f\<lparr>da_values := replicate m (j mod 2 ^ 32), md_dwell := Some (real_of_int j * dw)\<rparr>],
            new_acquisition = False, tc_errors = e\<rparr>
         = Inr \<lparr>tc_raw = [f\<lparr>da_values := replicate m ((j + int k) mod 2 ^ 32),
                              md_dwell := Some (real_of_int (j + int k) * dw)\<rparr>],
                new_acquisition = False, tc_errors = e\<rparr>"
proof (induction k arbitrary: j)
  case 0
  then show ?case by simp
next
  case (Suc k)
  have step: "frame_step f
           \<lparr>tc_raw = [f\<lparr>da_values := replicate m (j mod 2 ^ 32), md_dwell := Some (real_of_int j * dw)\<rparr>],
            new_acquisition = False, tc_errors = e\<rparr>
         = Inr \<lparr>tc_raw = [f\<lparr>da_values := replicate m ((j + 1) mod 2 ^ 32),
                              md_dwell := Some (real_of_int (j + 1) * dw)\<rparr>],
                new_acquisition = False, tc_errors = e\<rparr>"
    using assms by (simp add: frame_step_def astype_uint32_def add_uint32_def zip_replicate mod_add_left_eq mod_add_right_eq algebra_simps)
  have e: "j + int (Suc k) = (j + 1) + int k" by simp
  show ?case
    by (simp only: e replicate_Suc frameThread.simps step sum.case Suc.IH)
qed

lemma frameThread_first_ones:
  assumes "da_values f = replicate m 1" "md_dwell f = Some dw"
  shows "frameThread (replicate (Suc k) f) \<lparr>tc_raw = old, new_acquisition = True, tc_errors = e\<rparr>
         = Inr \<lparr>tc_raw = [f\<lparr>da_values := replicate m ((1 + int k) mod 2 ^ 32),
                              md_dwell := Some (real_of_int (1 + int k) * dw)\<rparr>],
                new_acquisition = False, tc_errors = e\<rparr>"
proof -
  have i: "astype_uint32 f = f\<lparr>da_values := replicate m (1 mod 2 ^ 32), md_dwell := Some (real_of_int 1 * dw)\<rparr>"
    using assms by (simp add: astype_uint32_def)
  have "frame_step f \<lparr>tc_raw = old, new_acquisition = True, tc_errors = e\<rparr>
      = Inr \<lparr>tc_raw = [astype_uint32 f], new_acquisition = False, tc_errors = e\<rparr>"
    by (simp add: frame_step_def)
  then show ?thesis
    by (simp only: replicate_Suc frameThread.simps sum.case i frameThread_ones [OF assms])
qed

text \<open>
  C8. When \<^verbatim>\<open>_prepareHardware\<close> returns, the number of frames is the ceiling of the
  total dwell time over the dwell time the scanner holds after \<open>min(total, max)\<close> was
  written to it, and the dwell time per frame is the total over that number; it does
  return, with at least one frame, for a positive total and a positive dwell time of the
  scanner. The frame thread makes the first frame (as uint32) the raw data, adds a later
  frame of the same shape value by value (modulo \<open>2^32\<close>) and adds its dwell time to
  the metadata, and drops a frame of another shape with an error logged. So \<open>N\<close> frames
  of ones (\<open>N\<close> the number of frames, below \<open>2^32\<close>), each with the dwell time per
  frame, give the value \<open>N\<close> everywhere and the total dwell time as metadata.
\<close>

theorem C8_stream_accumulation:
  "(prepareHardware g dwell dmax accept hw = Inr ((px_dt, nfr), hw') \<longrightarrow>
       nfr = \<lceil>dwell / accept (min dwell dmax)\<rceil> \<and> px_dt = dwell / real_of_int nfr
     \<and> (0 < nfr \<and> nfr < 2 ^ 32 \<and> da_values f = replicate m 1 \<and> md_dwell f = Some px_dt \<longrightarrow>
          frameThread (replicate (nat nfr) f) \<lparr>tc_raw = old, new_acquisition = True, tc_errors = e\<rparr>
            = Inr \<lparr>tc_raw = [f\<lparr>da_values := replicate m nfr, md_dwell := Some dwell\<rparr>],
                   new_acquisition = False, tc_errors = e\<rparr>))
   \<and> (0 < dwell \<and> 0 < accept (min dwell dmax) \<and> fst (g_rep g) \<noteq> 0 \<and> snd (g_rep g) \<noteq> 0 \<longrightarrow>
        (\<exists>p n h. prepareHardware g dwell dmax accept hw = Inr ((p, n), h) \<and> 0 < n))
   \<and> (new_acquisition st \<longrightarrow>
        frame_step d st = Inr (st\<lparr>tc_raw := [astype_uint32 d], new_acquisition := False\<rparr>))
   \<and> (\<not> new_acquisition st \<and> tc_raw st = r0 # rest \<and> da_shape r0 = da_shape d
        \<and> md_dwell r0 = Some a \<and> md_dwell d = Some b \<longrightarrow>
        frame_step d st =
          Inr (st\<lparr>tc_raw := r0\<lparr>da_values := add_uint32 (da_values r0) (map (\<lambda>v. v mod 2 ^ 32) (da_values d)),
                                 md_dwell := Some (a + b)\<rparr> # rest\<rparr>))
   \<and> (\<not> new_acquisition st \<and> tc_raw st = r0 # rest \<and> da_shape r0 \<noteq> da_shape d \<longrightarrow>
        frame_step d st = Inr (st\<lparr>tc_errors := tc_errors st + 1\<rparr>))"
proof (intro conjI impI)
  assume p: "prepareHardware g dwell dmax accept hw = Inr ((px_dt, nfr), hw')"
  from prepareHardware_Inr [OF p]
  show n: "nfr = \<lceil>dwell / accept (min dwell dmax)\<rceil>" and d: "px_dt = dwell / real_of_int nfr"
    by simp_all
  assume h: "0 < nfr \<and> nfr < 2 ^ 32 \<and> da_values f = replicate m 1 \<and> md_dwell f = Some px_dt"
  then obtain k where k: "nat nfr = Suc k" by (cases "nat nfr") auto
  then have nk: "1 + int k = nfr" using h by linarith
  have "nfr mod 2 ^ 32 = nfr" using h by simp
  moreover have "real_of_int nfr * px_dt = dwell" using d h by simp
  ultimately show "frameThread (replicate (nat nfr) f) \<lparr>tc_raw = old, new_acquisition = True, tc_errors = e\<rparr>
            = Inr \<lparr>tc_raw = [f\<lparr>da_values := replicate m nfr, md_dwell := Some dwell\<rparr>],
                   new_acquisition = False, tc_errors = e\<rparr>"
    using frameThread_first_ones [of f m px_dt k old e] h
    by (simp only: k nk)
next
  assume "0 < dwell \<and> 0 < accept (min dwell dmax) \<and> fst (g_rep g) \<noteq> 0 \<and> snd (g_rep g) \<noteq> 0"
  then show "\<exists>p n h. prepareHardware g dwell dmax accept hw = Inr ((p, n), h) \<and> 0 < n"
    using prepareHardware_ok by blast
next
  assume "new_acquisition st"
  then show "frame_step d st = Inr (st\<lparr>tc_raw := [astype_uint32 d], new_acquisition := False\<rparr>)"
    by (simp add: frame_step_def)
next
  assume "\<not> new_acquisition st \<and> tc_raw st = r0 # rest \<and> da_shape r0 = da_shape d
        \<and> md_dwell r0 = Some a \<and> md_dwell d = Some b"
  then show "frame_step d st =
          Inr (st\<lparr>tc_raw := r0\<lparr>da_values := add_uint32 (da_values r0) (map (\<lambda>v. v mod 2 ^ 32) (da_values d)),
                                 md_dwell := Some (a + b)\<rparr> # rest\<rparr>)"
    by (simp add: frame_step_def astype_uint32_def)
next
  assume "\<not> new_acquisition st \<and> tc_raw st = r0 # rest \<and> da_shape r0 \<noteq> da_shape d"
  then show "frame_step d st = Inr (st\<lparr>tc_errors := tc_errors st + 1\<rparr>)"
    by (simp add: frame_step_def)
qed

theorem C8_stream_accumulation_witness:
  "prepareHardware \<lparr>g_roi = (0, 0, 1, 1), g_rep = (2, 1), g_eshape = (4, 4), g_epxs = (1, 1)\<rparr>
      2 (1 / 2) (\<lambda>x. x)
      \<lparr>scanner_scale = (1, 1), scanner_resolution = (1, 1), scanner_translation = (0, 0),
       scanner_dwellTime = 0, tc_scanner_dwellTime = 0\<rparr>
   = Inr ((1 / 2, 4),
      \<lparr>scanner_scale = (2, 4), scanner_resolution = (2, 1), scanner_translation = (0, 0),
       scanner_dwellTime = 1 / 2, tc_scanner_dwellTime = 2\<rparr>)
   \<and> frameThread (replicate (nat 4)
        \<lparr>da_shape = [1, 2], da_values = [1, 1], md_pos = None, md_pxs = None,
         md_acq_date = None, md_dwell = Some (1 / 2)\<rparr>)
        \<lparr>tc_raw = [], new_acquisition = True, tc_errors = 0\<rparr>
     = Inr \<lparr>tc_raw = [\<lparr>da_shape = [1, 2], da_values = [4, 4], md_pos = None, md_pxs = None,
                        md_acq_date = None, md_dwell = Some 2\<rparr>],
            new_acquisition = False, tc_errors = 0\<rparr>"
proof -
  let ?g = "\<lparr>g_roi = (0, 0, 1, 1), g_rep = (2, 1), g_eshape = (4, 4), g_epxs = (1, 1)\<rparr>"
  let ?hw = "\<lparr>scanner_scale = (1, 1), scanner_resolution = (1, 1), scanner_translation = (0, 0),
       scanner_dwellTime = 0, tc_scanner_dwellTime = 0\<rparr>"
  let ?hw' = "\<lparr>scanner_scale = (2, 4), scanner_resolution = (2, 1), scanner_translation = (0, 0),
       scanner_dwellTime = 1 / 2, tc_scanner_dwellTime = 2\<rparr>"
  let ?f = "\<lparr>da_shape = [1, 2], da_values = [1, 1], md_pos = None, md_pxs = None,
         md_acq_date = None, md_dwell = Some (1 / 2)\<rparr>"
  have c: "\<lceil>(4::real)\<rceil> = 4" by simp
  have p: "prepareHardware ?g 2 (1 / 2) (\<lambda>x. x) ?hw = Inr ((1 / 2, 4), ?hw')"
    by (simp add: prepareHardware_def computeROISettings_def Let_def c)
  have h: "(0::int) < 4 \<and> (4::int) < 2 ^ 32 \<and> da_values ?f = replicate 2 1
             \<and> md_dwell ?f = Some (1 / 2)"
    by (simp add: numeral_2_eq_2)
  from C8_stream_accumulation [where g = ?g and dwell = 2 and dmax = "1 / 2"
      and accept = "\<lambda>x. x" and hw = ?hw and px_dt = "1 / 2" and nfr = 4 and hw' = ?hw'
      and f = ?f and m = 2 and old = "[]" and e = 0] p h
  have "frameThread (replicate (nat 4) ?f) \<lparr>tc_raw = [], new_acquisition = True, tc_errors = 0\<rparr>
      = Inr \<lparr>tc_raw = [?f\<lparr>da_values := replicate 2 4, md_dwell := Some 2\<rparr>],
             new_acquisition = False, tc_errors = 0\<rparr>"
    by blast
  with p show ?thesis by (simp add: numeral_2_eq_2)
qed

subsection \<open>The scan stage\<close>

lemma getScanStagePositions_out:
  assumes "fst (g_rep g) \<noteq> 0" "snd (g_rep g) \<noteq> 0"
    and "\<not> box_in_range (scan_stage_box g spos) rng"
  shows "getScanStagePositions g rng spos = Inl ValueError"
  using assms
  by (cases "scan_stage_box g spos")
     (auto simp: getScanStagePositions_def box_in_range_def Let_def)

text \<open>
  C5 as stated fails: with a stage of range \<open>[-5e-3, 5e-3]\<close> on both axes standing at
  \<open>(1e-3, 0)\<close> and a field of view too wide for the range, the run fails with
  \<^verbatim>\<open>ValueError\<close> before any pixel, and the stage has been moved, to \<open>(0, 0)\<close>.
\<close>

theorem C5_counterexample:
  "runAcquisition
     \<lparr>c_geom = \<lparr>g_roi = (0, 0, 1, 1), g_rep = (2, 1), g_eshape = (4, 2), g_epxs = (1 / 100, 1 / 100)\<rparr>,
       c_rep_time = 1, c_trans_rng = ((- 2, - 1), (2, 1)), c_useScanStage = True,
       c_sstage = Some ((- 5 / 1000, 5 / 1000), (- 5 / 1000, 5 / 1000))\<rparr>
     (mock_env 1
      \<lparr>da_shape = [1, 1], da_values = [3], md_pos = Some (0, 0), md_pxs = Some (1, 1),
        md_acq_date = Some 0, md_dwell = None\<rparr>
      \<lparr>da_shape = [1, 2], da_values = [8, 9], md_pos = None, md_pxs = Some (1, 1),
        md_acq_date = Some 0, md_dwell = None\<rparr> []) []
     \<lparr>acq_state = RUNNING, acq_complete = [False, False], acq_data = [[], []],
       acq_min_date = None, acq_done = False, subscribed = [False, False],
       synchronized = [False, False], raw = [], prog = \<lparr>prog_sum = 0, future_end = 0\<rparr>,
       translation = (0, 0), stage_position = (1 / 1000, 0), stage_moves = [], slept = [],
       done_waits = [], notified = 0, warnings = 0\<rparr>
   = (Inl ValueError,
     \<lparr>acq_state = RUNNING, acq_complete = [False, False], acq_data = [[], []],
       acq_min_date = None, acq_done = True, subscribed = [False, False],
       synchronized = [False, False], raw = [], prog = \<lparr>prog_sum = 0, future_end = 0\<rparr>,
       translation = (0, 0), stage_position = (0, 0), stage_moves = [(Some 0, Some 0)], slept = [],
       done_waits = [], notified = 0, warnings = 0\<rparr>)"
  by (simp add: runAcquisition_def runAcquisitionScanStage_def getScanStagePositions_def
          scan_stage_box_def conclude_def on_exception_def finally_clause_def only_last_def Let_def)

text \<open>
  C5 (amended). With a scan stage, a repetition of positive integers and a target box (Y
  inverted) that is not within the ranges of the two axes, the computation of the stage
  positions fails with \<^verbatim>\<open>ValueError\<close>, and so does the run, before any pixel is
  acquired: the camera is not triggered, nothing is accumulated, and no move to a position
  of the grid is asked of the stage. The one move of the stage is the final one, to the
  centre of its ranges.
\<close>

theorem C5_scan_stage_out_of_range:
  assumes "c_sstage cfg = Some rng"
    and "0 < fst (g_rep (c_geom cfg))" "0 < snd (g_rep (c_geom cfg))"
    and "acq_state st \<noteq> CANCELLED"
    and "\<not> box_in_range (scan_stage_box (c_geom cfg) (stage_position st)) rng"
  shows "getScanStagePositions (c_geom cfg) rng (stage_position st) = Inl ValueError
     \<and> runAcquisitionScanStage cfg env ev_end st =
         (Inl ValueError,
          st\<lparr>acq_done := True, translation := (0, 0),
             subscribed := map (\<lambda>_. False) (subscribed st),
             synchronized := only_last False (synchronized st),
             raw := [],
             acq_data := map (\<lambda>_. []) (acq_complete st),
             stage_moves := stage_moves st @
               [(Some ((fst (fst rng) + snd (fst rng)) / 2), Some ((fst (snd rng) + snd (snd rng)) / 2))],
             stage_position := ((fst (fst rng) + snd (fst rng)) / 2, (fst (snd rng) + snd (snd rng)) / 2)\<rparr>)
     \<and> (c_useScanStage cfg \<longrightarrow>
          runAcquisition cfg env ev_end st = runAcquisitionScanStage cfg env ev_end st)"
proof -
  have g: "getScanStagePositions (c_geom cfg) rng (stage_position st) = Inl ValueError"
    using assms by (intro getScanStagePositions_out) auto
  show ?thesis
    using assms(1,4)
    by (simp add: g runAcquisitionScanStage_def runAcquisition_def conclude_def on_exception_def
          finally_clause_def Let_def)
qed

theorem C5_scan_stage_out_of_range_witness:
  "\<not> box_in_range (scan_stage_box (c_geom \<lparr>c_geom = \<lparr>g_roi = (0, 0, 1, 1), g_rep = (2, 1), g_eshape = (4, 2), g_epxs = (1 / 100, 1 / 100)\<rparr>,
       c_rep_time = 1, c_trans_rng = ((- 2, - 1), (2, 1)), c_useScanStage = True,
       c_sstage = Some ((- 5 / 1000, 5 / 1000), (- 5 / 1000, 5 / 1000))\<rparr>)
         (stage_position \<lparr>acq_state = RUNNING, acq_complete = [False, False], acq_data = [[], []],
       acq_min_date = None, acq_done = False, subscribed = [False, False],
       synchronized = [False, False], raw = [], prog = \<lparr>prog_sum = 0, future_end = 0\<rparr>,
       translation = (0, 0), stage_position = (1 / 1000, 0), stage_moves = [], slept = [],
       done_waits = [], notified = 0, warnings = 0\<rparr>))
       ((- 5 / 1000, 5 / 1000), (- 5 / 1000, 5 / 1000))
   \<and> fst (runAcquisitionScanStage \<lparr>c_geom = \<lparr>g_roi = (0, 0, 1, 1), g_rep = (2, 1), g_eshape = (4, 2), g_epxs = (1 / 100, 1 / 100)\<rparr>,
       c_rep_time = 1, c_trans_rng = ((- 2, - 1), (2, 1)), c_useScanStage = True,
       c_sstage = Some ((- 5 / 1000, 5 / 1000), (- 5 / 1000, 5 / 1000))\<rparr>
         (mock_env 1
      \<lparr>da_shape = [1, 1], da_values = [3], md_pos = Some (0, 0), md_pxs = Some (1, 1),
        md_acq_date = Some 0, md_dwell = None\<rparr>
      \<lparr>da_shape = [1, 2], da_values = [8, 9], md_pos = None, md_pxs = Some (1, 1),
        md_acq_date = Some 0, md_dwell = None\<rparr> []) []
         \<lparr>acq_state = RUNNING, acq_complete = [False, False], acq_data = [[], []],
       acq_min_date = None, acq_done = False, subscribed = [False, False],
       synchronized = [False, False], raw = [], prog = \<lparr>prog_sum = 0, future_end = 0\<rparr>,
       translation = (0, 0), stage_position = (1 / 1000, 0), stage_moves = [], slept = [],
       done_waits = [], notified = 0, warnings = 0\<rparr>) = Inl ValueError
   \<and> stage_moves (snd (runAcquisitionScanStage \<lparr>c_geom = \<lparr>g_roi = (0, 0, 1, 1), g_rep = (2, 1), g_eshape = (4, 2), g_epxs = (1 / 100, 1 / 100)\<rparr>,
       c_rep_time = 1, c_trans_rng = ((- 2, - 1), (2, 1)), c_useScanStage = True,
       c_sstage = Some ((- 5 / 1000, 5 / 1000), (- 5 / 1000, 5 / 1000))\<rparr>
         (mock_env 1
      \<lparr>da_shape = [1, 1], da_values = [3], md_pos = Some (0, 0), md_pxs = Some (1, 1),
        md_acq_date = Some 0, md_dwell = None\<rparr>
      \<lparr>da_shape = [1, 2], da_values = [8, 9], md_pos = None, md_pxs = Some (1, 1),
        md_acq_date = Some 0, md_dwell = None\<rparr> []) []
         \<lparr>acq_state = RUNNING, acq_complete = [False, False], acq_data = [[], []],
       acq_min_date = None, acq_done = False, subscribed = [False, False],
       synchronized = [False, False], raw = [], prog = \<lparr>prog_sum = 0, future_end = 0\<rparr>,
       translation = (0, 0), stage_position = (1 / 1000, 0), stage_moves = [], slept = [],
       done_waits = [], notified = 0, warnings = 0\<rparr>)) = [(Some 0, Some 0)]
   \<and> notified (snd (runAcquisitionScanStage \<lparr>c_geom = \<lparr>g_roi = (0, 0, 1, 1), g_rep = (2, 1), g_eshape = (4, 2), g_epxs = (1 / 100, 1 / 100)\<rparr>,
       c_rep_time = 1, c_trans_rng = ((- 2, - 1), (2, 1)), c_useScanStage = True,
       c_sstage = Some ((- 5 / 1000, 5 / 1000), (- 5 / 1000, 5 / 1000))\<rparr>
         (mock_env 1
      \<lparr>da_shape = [1, 1], da_values = [3], md_pos = Some (0, 0), md_pxs = Some (1, 1),
        md_acq_date = Some 0, md_dwell = None\<rparr>
      \<lparr>da_shape = [1, 2], da_values = [8, 9], md_pos = None, md_pxs = Some (1, 1),
        md_acq_date = Some 0, md_dwell = None\<rparr> []) []
         \<lparr>acq_state = RUNNING, acq_complete = [False, False], acq_data = [[], []],
       acq_min_date = None, acq_done = False, subscribed = [False, False],
       synchronized = [False, False], raw = [], prog = \<lparr>prog_sum = 0, future_end = 0\<rparr>,
       translation = (0, 0), stage_position = (1 / 1000, 0), stage_moves = [], slept = [],
       done_waits = [], notified = 0, warnings = 0\<rparr>)) = 0"
proof -
  let ?cfg = "\<lparr>c_geom = \<lparr>g_roi = (0, 0, 1, 1), g_rep = (2, 1), g_eshape = (4, 2), g_epxs = (1 / 100, 1 / 100)\<rparr>,
       c_rep_time = 1, c_trans_rng = ((- 2, - 1), (2, 1)), c_useScanStage = True,
       c_sstage = Some ((- 5 / 1000, 5 / 1000), (- 5 / 1000, 5 / 1000))\<rparr>"
  let ?st = "\<lparr>acq_state = RUNNING, acq_complete = [False, False], acq_data = [[], []],
       acq_min_date = None, acq_done = False, subscribed = [False, False],
       synchronized = [False, False], raw = [], prog = \<lparr>prog_sum = 0, future_end = 0\<rparr>,
       translation = (0, 0), stage_position = (1 / 1000, 0), stage_moves = [], slept = [],
       done_waits = [], notified = 0, warnings = 0\<rparr>"
  let ?rng = "((- 5 / 1000, 5 / 1000), (- 5 / 1000, 5 / 1000)) :: (real \<times> real) \<times> (real \<times> real)"
  have h: "c_sstage ?cfg = Some ?rng" "0 < fst (g_rep (c_geom ?cfg))" "0 < snd (g_rep (c_geom ?cfg))"
    "acq_state ?st \<noteq> CANCELLED"
    by simp_all
  have b: "\<not> box_in_range (scan_stage_box (c_geom ?cfg) (stage_position ?st)) ?rng"
    by (simp add: box_in_range_def scan_stage_box_def Let_def)
  from C5_scan_stage_out_of_range [OF h b] b show ?thesis by simp
qed

subsection \<open>The retry loop\<close>

lemma length2: "length xs = 2 \<Longrightarrow> \<exists>a b. xs = [a, b]"
  by (cases xs; cases "tl xs") auto

lemma mock_attempt_missed:
  assumes inv: "mock_inv sem ccd k st"
    and early: "0 \<le> (case md_acq_date sem of None \<Rightarrow> 0 | Some d \<Rightarrow> d)"
    and missed: "j < misses_at misses k"
  shows "\<exists>st'. attempt rt store tot k (mock_env rt sem ccd misses k j) st = Failed st'
      \<and> mock_inv sem ccd k (restart_acquisition k st')"
proof -
  from inv obtain c0 c1 s0 s1 where c: "acq_complete st = [c0, c1]" and s: "subscribed st = [s0, s1]"
    unfolding mock_inv_def using length2 by metis
  from inv have d: "acq_data st = [replicate k sem, replicate k (ccd\<lparr>md_pos := md_pos sem\<rparr>)]"
    and r: "acq_state st = RUNNING" "raw st = []"
    by (simp_all add: mock_inv_def)
  show ?thesis
    using missed early
    by (simp add: attempt_def begin_attempt_def trigger_and_wait_def run_events_def mock_env_def
          onData_def too_early_def all_but_last_def c s d r Let_def mock_inv_def
          restart_acquisition_def only_last_def)
qed

lemma mock_attempt_ok:
  assumes inv: "mock_inv sem ccd k st"
    and early: "0 \<le> (case md_acq_date sem of None \<Rightarrow> 0 | Some d \<Rightarrow> d)"
               "0 \<le> (case md_acq_date ccd of None \<Rightarrow> 0 | Some d \<Rightarrow> d)"
    and pos: "md_pos sem = Some p"
    and rt: "0 \<le> rt"
    and ok: "\<not> j < misses_at misses k"
  shows "\<exists>st'. attempt rt (store_beam sub_pxs) tot k (mock_env rt sem ccd misses k j) st = Stored st'
      \<and> mock_inv sem ccd (Suc k) st'"
proof -
  from inv obtain c0 c1 s0 s1 where c: "acq_complete st = [c0, c1]" and s: "subscribed st = [s0, s1]"
    unfolding mock_inv_def using length2 by metis
  from inv have d: "acq_data st = [replicate k sem, replicate k (ccd\<lparr>md_pos := md_pos sem\<rparr>)]"
    and r: "acq_state st = RUNNING" "raw st = []"
    by (simp_all add: mock_inv_def)
  have e: "replicate k x @ [x] = x # replicate k x" for x :: dataarray
    by (simp add: replicate_append_same)
  show ?thesis
    using ok early rt pos
    by (simp add: attempt_def begin_attempt_def trigger_and_wait_def run_events_def mock_env_def
          onData_def too_early_def all_but_last_def c s d r Let_def mock_inv_def
          store_beam_def last_pos_def set_last_pos_def e)
qed

lemma mock_pixel_ok:
  assumes early: "0 \<le> (case md_acq_date sem of None \<Rightarrow> 0 | Some d \<Rightarrow> d)"
               "0 \<le> (case md_acq_date ccd of None \<Rightarrow> 0 | Some d \<Rightarrow> d)"
    and pos: "md_pos sem = Some p"
    and rt: "0 \<le> rt"
    and few: "misses_at misses k \<le> 2"
  shows "mock_inv sem ccd k st \<Longrightarrow> f \<le> misses_at misses k \<Longrightarrow>
     \<exists>st'. acquire_pixel rt (store_beam sub_pxs) tot k (mock_env rt sem ccd misses k) f st = Inr st'
       \<and> mock_inv sem ccd (Suc k) st'"
proof (induction "misses_at misses k - f" arbitrary: f st)
  case 0
  then have "\<not> f < misses_at misses k" by simp
  from mock_attempt_ok [OF "0.prems"(1) early pos rt this, where sub_pxs = sub_pxs and tot = tot]
  show ?case by (subst acquire_pixel.simps) auto
next
  case (Suc d)
  then have lt: "f < misses_at misses k" by simp
  from mock_attempt_missed [OF Suc.prems(1) early(1) lt, where rt = rt and store = "store_beam sub_pxs" and tot = tot]
  obtain st1 where a: "attempt rt (store_beam sub_pxs) tot k (mock_env rt sem ccd misses k f) st = Failed st1"
    and i: "mock_inv sem ccd k (restart_acquisition k st1)"
    by blast
  have d: "d = misses_at misses k - (f + 1)" using Suc.hyps(2) by simp
  have le: "f + 1 \<le> misses_at misses k" using lt by simp
  have n3: "\<not> 3 \<le> f + 1" using lt few by simp
  from Suc.hyps(1) [OF d i le] n3 a
  show ?case by (subst acquire_pixel.simps) simp
qed

lemma mock_pixel_fail:
  assumes early: "0 \<le> (case md_acq_date sem of None \<Rightarrow> 0 | Some d \<Rightarrow> d)"
    and many: "3 \<le> misses_at misses k"
  shows "mock_inv sem ccd k st \<Longrightarrow> f \<le> 2 \<Longrightarrow>
     \<exists>st'. acquire_pixel rt store tot k (mock_env rt sem ccd misses k) f st = Inl (IOError, st')
       \<and> acq_state st' = RUNNING"
proof (induction "2 - f" arbitrary: f st)
  case 0
  then have f: "f = 2" by simp
  then have lt: "f < misses_at misses k" using many by simp
  from mock_attempt_missed [OF "0.prems"(1) early lt, where rt = rt and store = store and tot = tot]
  show ?case by (subst acquire_pixel.simps) (auto simp: f mock_inv_def restart_acquisition_def)
next
  case (Suc d)
  then have f: "f < 2" by simp
  then have lt: "f < misses_at misses k" using many by simp
  from mock_attempt_missed [OF Suc.prems(1) early lt, where rt = rt and store = store and tot = tot]
  obtain st1 where a: "attempt rt store tot k (mock_env rt sem ccd misses k f) st = Failed st1"
    and i: "mock_inv sem ccd k (restart_acquisition k st1)"
    by blast
  have d: "d = 2 - (f + 1)" using Suc.hyps(2) by simp
  have le: "f + 1 \<le> 2" using f by simp
  have n3: "\<not> 3 \<le> f + 1" using f by simp
  from Suc.hyps(1) [OF d i le] n3 a
  show ?case by (subst acquire_pixel.simps) simp
qed

lemma mock_inv_translation: "mock_inv sem ccd k (st\<lparr>translation := t\<rparr>) = mock_inv sem ccd k st"
  by (simp add: mock_inv_def)

lemma mock_run_pixels_ok:
  assumes early: "0 \<le> (case md_acq_date sem of None \<Rightarrow> 0 | Some d \<Rightarrow> d)"
               "0 \<le> (case md_acq_date ccd of None \<Rightarrow> 0 | Some d \<Rightarrow> d)"
    and pos: "md_pos sem = Some p"
    and rt: "0 \<le> c_rep_time cfg"
  shows "mock_inv sem ccd k st \<Longrightarrow> (\<forall>i < length trs. misses_at misses (k + i) \<le> 2) \<Longrightarrow>
     \<exists>st'. run_pixels cfg tot trs k (mock_env (c_rep_time cfg) sem ccd misses) st = Inr st'
       \<and> mock_inv sem ccd (k + length trs) st'"
proof (induction trs arbitrary: k st)
  case Nil
  then show ?case by simp
next
  case (Cons tr trs)
  let ?st1 = "st\<lparr>translation := clip (c_trans_rng cfg) tr\<rparr>"
  have i1: "mock_inv sem ccd k ?st1" using Cons.prems(1) by (simp add: mock_inv_translation)
  have few: "misses_at misses k \<le> 2" using Cons.prems(2) by force
  from mock_pixel_ok [OF early pos rt few i1, where f = 0 and sub_pxs = "g_epxs (c_geom cfg)" and tot = tot]
  obtain st2 where a: "acquire_pixel (c_rep_time cfg) (store_beam (g_epxs (c_geom cfg))) tot k
        (mock_env (c_rep_time cfg) sem ccd misses k) 0 ?st1 = Inr st2"
    and i2: "mock_inv sem ccd (Suc k) st2"
    by auto
  have rest: "\<forall>i < length trs. misses_at misses (Suc k + i) \<le> 2"
    using Cons.prems(2) by force
  from Cons.IH [OF i2 rest] a show ?case by (simp add: Let_def)
qed

lemma mock_run_pixels_fail:
  assumes early: "0 \<le> (case md_acq_date sem of None \<Rightarrow> 0 | Some d \<Rightarrow> d)"
               "0 \<le> (case md_acq_date ccd of None \<Rightarrow> 0 | Some d \<Rightarrow> d)"
    and pos: "md_pos sem = Some p"
    and rt: "0 \<le> c_rep_time cfg"
  shows "mock_inv sem ccd k st \<Longrightarrow> j < length trs \<Longrightarrow> (\<forall>i < j. misses_at misses (k + i) \<le> 2)
     \<Longrightarrow> 3 \<le> misses_at misses (k + j) \<Longrightarrow>
     \<exists>st'. run_pixels cfg tot trs k (mock_env (c_rep_time cfg) sem ccd misses) st = Inl (IOError, st')
       \<and> acq_state st' = RUNNING"
proof (induction trs arbitrary: k st j)
  case Nil
  then show ?case by simp
next
  case (Cons tr trs)
  let ?st1 = "st\<lparr>translation := clip (c_trans_rng cfg) tr\<rparr>"
  have i1: "mock_inv sem ccd k ?st1" using Cons.prems(1) by (simp add: mock_inv_translation)
  show ?case
  proof (cases j)
    case 0
    with Cons.prems(4) have many: "3 \<le> misses_at misses k" by simp
    from mock_pixel_fail [OF early(1) many i1, where f = 0 and rt = "c_rep_time cfg" and store = "store_beam (g_epxs (c_geom cfg))" and tot = tot]
    show ?thesis by (auto simp: Let_def)
  next
    case (Suc j')
    have few: "misses_at misses k \<le> 2" using Cons.prems(3) Suc by force
    from mock_pixel_ok [OF early pos rt few i1, where f = 0 and sub_pxs = "g_epxs (c_geom cfg)" and tot = tot]
    obtain st2 where a: "acquire_pixel (c_rep_time cfg) (store_beam (g_epxs (c_geom cfg))) tot k
          (mock_env (c_rep_time cfg) sem ccd misses k) 0 ?st1 = Inr st2"
      and i2: "mock_inv sem ccd (Suc k) st2"
      by auto
    have j': "j' < length trs" using Cons.prems(2) Suc by simp
    have rest: "\<forall>i < j'. misses_at misses (Suc k + i) \<le> 2"
      using Cons.prems(3) Suc by force
    have many: "3 \<le> misses_at misses (Suc k + j')" using Cons.prems(4) Suc by simp
    from Cons.IH [OF i2 j' rest many] a show ?thesis by (simp add: Let_def)
  qed
qed

lemma length_grid: "length (concat (map (\<lambda>y. map (\<lambda>x. (x, y)) xs) ys)) = length ys * length xs"
  by (induction ys) simp_all

lemma getSpotPositions_length:
  assumes "0 < fst (g_rep g)" "0 < snd (g_rep g)"
  shows "\<exists>pos. getSpotPositions g = Inr pos
     \<and> length (concat pos) = nat (fst (g_rep g) * snd (g_rep g))"
proof -
  obtain l t r b where roi: "g_roi g = (l, t, r, b)" by (cases "g_roi g") auto
  obtain xs ys where p: "getSpotPositions g = Inr (map (\<lambda>y. map (\<lambda>x. (x, y)) xs) ys)"
    and lx: "length xs = nat (fst (g_rep g))" and ly: "length ys = nat (snd (g_rep g))"
    using getSpotPositions_Inr [OF assms roi] length_linspace by blast
  have "nat (snd (g_rep g)) * nat (fst (g_rep g)) = nat (fst (g_rep g) * snd (g_rep g))"
    using assms by (simp add: nat_mult_distrib mult.commute)
  then have "length (concat (map (\<lambda>y. map (\<lambda>x. (x, y)) xs) ys)) = nat (fst (g_rep g) * snd (g_rep g))"
    by (simp only: length_grid lx ly)
  with p show ?thesis by blast
qed

lemma assembleTiles_replicate:
  assumes "da_shape d = [T, S]" "0 < T" "0 < S" "md_pos d = Some p" "md_pxs d = Some q"
    and "0 < fst (g_rep g)" "0 < snd (g_rep g)"
  shows "\<exists>img. assembleTiles g (g_rep g) (replicate (nat (fst (g_rep g) * snd (g_rep g))) d) = Inr img
     \<and> da_shape img \<noteq> [0]"
proof -
  have "0 < fst (g_rep g) * snd (g_rep g)" using assms(6,7) by simp
  then obtain m where m: "nat (fst (g_rep g) * snd (g_rep g)) = Suc m"
    by (cases "nat (fst (g_rep g) * snd (g_rep g))") auto
  have len: "1 + int m = snd (g_rep g) * fst (g_rep g)"
    using m assms(6,7) by (simp add: mult.commute)
  have tl: "\<exists>x. top_left d = Inr x"
    using assms(1,4,5) by (simp add: top_left_def from_end_def)
  have px: "\<exists>x. getPixelSize g = Inr x"
    using assms(6,7) by (cases "g_roi g") (simp add: getPixelSize_def Let_def)
  from tl px obtain c pxs where c: "get_center_pxs g (g_rep g) (int T, int S) d = Inr (c, pxs)"
    using assms(2,3) by (auto simp: get_center_pxs_def Let_def)
  show ?thesis
    unfolding m using assms(1,6,7) len
    by (simp add: assembleTiles_def c)
qed

lemma mock_inv_start:
  assumes "acq_state st = RUNNING" "length (acq_complete st) = 2" "length (subscribed st) = 2"
  shows "mock_inv sem ccd 0
           (st\<lparr>acq_done := False, acq_data := map (\<lambda>_. []) (acq_complete st), raw := [],
               synchronized := only_last True (synchronized st),
               subscribed := only_last True (subscribed st)\<rparr>)"
proof -
  from assms obtain c0 c1 s0 s1 where "acq_complete st = [c0, c1]" "subscribed st = [s0, s1]"
    using length2 by metis
  with assms(1) show ?thesis by (simp add: mock_inv_def only_last_def)
qed

lemma mock_finish:
  assumes inv: "mock_inv sem ccd (nat (fst (g_rep g) * snd (g_rep g))) st"
    and rep: "0 < fst (g_rep g)" "0 < snd (g_rep g)"
    and sem: "da_shape sem = [T, S]" "0 < T" "0 < S" "md_pos sem = Some p" "md_pxs sem = Some q"
    and ccd: "da_shape ccd = [T', S']" "0 < T'" "0 < S'" "md_pxs ccd = Some q'"
  shows "\<exists>img1 img2 st'. finish_acquisition g [] st = Inr st' \<and> raw st' = [img1, img2]
     \<and> da_shape img1 \<noteq> [0] \<and> da_shape img2 \<noteq> [0] \<and> acq_state st' = FINISHED"
proof -
  let ?n = "nat (fst (g_rep g) * snd (g_rep g))"
  let ?ccd = "ccd\<lparr>md_pos := md_pos sem\<rparr>"
  from inv have d: "acq_data st = [replicate ?n sem, replicate ?n ?ccd]"
    and r: "acq_state st = RUNNING" "raw st = []"
    by (simp_all add: mock_inv_def)
  from assembleTiles_replicate [OF sem rep]
  obtain img1 where 1: "assembleTiles g (g_rep g) (replicate ?n sem) = Inr img1"
    and s1: "da_shape img1 \<noteq> [0]" by blast
  have "da_shape ?ccd = [T', S']" "md_pos ?ccd = Some p" "md_pxs ?ccd = Some q'"
    using ccd sem by simp_all
  from assembleTiles_replicate [OF this(1) ccd(2,3) this(2,3) rep]
  obtain img2 where 2: "assembleTiles g (g_rep g) (replicate ?n ?ccd) = Inr img2"
    and s2: "da_shape img2 \<noteq> [0]" by blast
  have "finish_acquisition g [] st =
      Inr (st\<lparr>subscribed := map (\<lambda>_. False) (subscribed st),
              synchronized := only_last False (synchronized st),
              acq_state := FINISHED, raw := [img1, img2]\<rparr>)"
    by (simp add: finish_acquisition_def run_events_def Let_def d r 1 2)
  with s1 s2 show ?thesis by simp
qed

lemma mock_run_ok:
  assumes scan: "\<not> c_useScanStage cfg"
    and rep: "0 < fst (g_rep (c_geom cfg))" "0 < snd (g_rep (c_geom cfg))"
    and st: "acq_state st = RUNNING" "length (acq_complete st) = 2" "length (subscribed st) = 2"
    and early: "0 \<le> (case md_acq_date sem of None \<Rightarrow> 0 | Some d \<Rightarrow> d)"
               "0 \<le> (case md_acq_date ccd of None \<Rightarrow> 0 | Some d \<Rightarrow> d)"
    and rt: "0 \<le> c_rep_time cfg"
    and sem: "da_shape sem = [T, S]" "0 < T" "0 < S" "md_pos sem = Some p" "md_pxs sem = Some q"
    and ccd: "da_shape ccd = [T', S']" "0 < T'" "0 < S'" "md_pxs ccd = Some q'"
    and few: "\<forall>k < nat (fst (g_rep (c_geom cfg)) * snd (g_rep (c_geom cfg))). misses_at misses k \<le> 2"
  shows "\<exists>img1 img2 st'.
           runAcquisition cfg (mock_env (c_rep_time cfg) sem ccd misses) [] st = (Inr [img1, img2], st')
         \<and> acq_state st' = FINISHED"
proof -
  let ?g = "c_geom cfg"
  let ?n = "nat (fst (g_rep ?g) * snd (g_rep ?g))"
  let ?st3 = "st\<lparr>acq_done := False, acq_data := map (\<lambda>_. []) (acq_complete st), raw := [],
               synchronized := only_last True (synchronized st),
               subscribed := only_last True (subscribed st)\<rparr>"
  from getSpotPositions_length [OF rep]
  obtain pos where pos: "getSpotPositions ?g = Inr pos" and len: "length (concat pos) = ?n"
    by blast
  have i0: "mock_inv sem ccd 0 ?st3" by (rule mock_inv_start [OF st])
  have few': "\<forall>i < length (concat pos). misses_at misses (0 + i) \<le> 2" using few len by simp
  from mock_run_pixels_ok [OF early sem(4) rt i0 few', where tot = "fst (g_rep ?g) * snd (g_rep ?g)"]
  obtain st4 where run: "run_pixels cfg (fst (g_rep ?g) * snd (g_rep ?g)) (concat pos) 0
        (mock_env (c_rep_time cfg) sem ccd misses) ?st3 = Inr st4"
    and i4: "mock_inv sem ccd ?n st4"
    using len by auto
  from mock_finish [OF i4 rep sem ccd]
  obtain img1 img2 st5 where fin: "finish_acquisition ?g [] st4 = Inr st5"
    and raw: "raw st5 = [img1, img2]" and sh: "da_shape img1 \<noteq> [0]" "da_shape img2 \<noteq> [0]"
    and f: "acq_state st5 = FINISHED"
    by blast
  have "runAcquisition cfg (mock_env (c_rep_time cfg) sem ccd misses) [] st
      = (Inr [img1, img2], finally_clause st5)"
    using scan by (simp add: runAcquisition_def Let_def pos run fin conclude_def raw_property_def raw sh)
  moreover have "acq_state (finally_clause st5) = FINISHED"
    using f by (simp add: finally_clause_def)
  ultimately show ?thesis by blast
qed

lemma mock_run_fail:
  assumes scan: "\<not> c_useScanStage cfg"
    and rep: "0 < fst (g_rep (c_geom cfg))" "0 < snd (g_rep (c_geom cfg))"
    and st: "acq_state st = RUNNING" "length (acq_complete st) = 2" "length (subscribed st) = 2"
    and early: "0 \<le> (case md_acq_date sem of None \<Rightarrow> 0 | Some d \<Rightarrow> d)"
               "0 \<le> (case md_acq_date ccd of None \<Rightarrow> 0 | Some d \<Rightarrow> d)"
    and rt: "0 \<le> c_rep_time cfg"
    and pos: "md_pos sem = Some p"
    and k: "k < nat (fst (g_rep (c_geom cfg)) * snd (g_rep (c_geom cfg)))"
    and few: "\<forall>i < k. misses_at misses i \<le> 2"
    and many: "3 \<le> misses_at misses k"
  shows "fst (runAcquisition cfg (mock_env (c_rep_time cfg) sem ccd misses) [] st) = Inl IOError"
proof -
  let ?g = "c_geom cfg"
  let ?n = "nat (fst (g_rep ?g) * snd (g_rep ?g))"
  let ?st3 = "st\<lparr>acq_done := False, acq_data := map (\<lambda>_. []) (acq_complete st), raw := [],
               synchronized := only_last True (synchronized st),
               subscribed := only_last True (subscribed st)\<rparr>"
  from getSpotPositions_length [OF rep]
  obtain spos where spos: "getSpotPositions ?g = Inr spos" and len: "length (concat spos) = ?n"
    by blast
  have i0: "mock_inv sem ccd 0 ?st3" by (rule mock_inv_start [OF st])
  have k': "k < length (concat spos)" using k len by simp
  have few': "\<forall>i < k. misses_at misses (0 + i) \<le> 2" using few by simp
  have many': "3 \<le> misses_at misses (0 + k)" using many by simp
  from mock_run_pixels_fail [OF early pos rt i0 k' few' many', where tot = "fst (g_rep ?g) * snd (g_rep ?g)"]
  obtain st4 where run: "run_pixels cfg (fst (g_rep ?g) * snd (g_rep ?g)) (concat spos) 0
        (mock_env (c_rep_time cfg) sem ccd misses) ?st3 = Inl (IOError, st4)"
    and r: "acq_state st4 = RUNNING"
    by blast
  show ?thesis
    using scan by (simp add: runAcquisition_def Let_def spos run conclude_def on_exception_def r)
qed

lemma only_last_flags:
  "i < length xs \<Longrightarrow> only_last True (map (\<lambda>_. False) xs) ! i = (i = length xs - 1)"
  by (cases xs rule: rev_cases) (auto simp: only_last_def nth_append)

text \<open>
  C2. In an attempt that is not cancelled, when the event of the camera is still clear at
  the deadline or the time elapsed is below 0.95 times the time per pixel, the attempt has
  failed (with a warning). At the first and at the second failure at a pixel the worker
  goes on with the same pixel from a state in which no subscriber is subscribed but the one
  of the camera, every accumulator is cut back to its first \<open>n\<close> data arrays and one
  second was slept; at the third failure it raises \<^verbatim>\<open>IOError\<close>. With the mock
  detectors, a run in which the camera misses at most two triggers at each pixel ends with
  the two assembled images and the state FINISHED, and a run in which it misses three at
  some pixel fails with \<^verbatim>\<open>IOError\<close>.
\<close>

theorem C2_retry:
  "(acq_state (begin_attempt (env f) st) \<noteq> CANCELLED
      \<and> acq_complete (trigger_and_wait (env f) (begin_attempt (env f) st)) \<noteq> []
      \<and> acq_state (trigger_and_wait (env f) (begin_attempt (env f) st)) \<noteq> CANCELLED
      \<and> (\<not> last (acq_complete (trigger_and_wait (env f) (begin_attempt (env f) st)))
           \<or> t_elapsed (env f) < rep_time * 0.95) \<longrightarrow>
      attempt rep_time store tot n (env f) st
        = Failed (trigger_and_wait (env f) (begin_attempt (env f) st)
                    \<lparr>warnings := warnings (trigger_and_wait (env f) (begin_attempt (env f) st)) + 1\<rparr>))
   \<and> (attempt rep_time store tot n (env f) st = Failed fst' \<and> f < 2 \<longrightarrow>
        acquire_pixel rep_time store tot n env f st
          = acquire_pixel rep_time store tot n env (f + 1) (restart_acquisition n fst')
      \<and> (\<forall>i < length (subscribed fst').
            subscribed (restart_acquisition n fst') ! i = (i = length (subscribed fst') - 1))
      \<and> acq_data (restart_acquisition n fst') = map (take n) (acq_data fst')
      \<and> (\<forall>ad \<in> set (acq_data (restart_acquisition n fst')). length ad \<le> n)
      \<and> slept (restart_acquisition n fst') = slept fst' @ [1])
   \<and> (attempt rep_time store tot n (env f) st = Failed fst' \<and> 2 \<le> f \<longrightarrow>
        acquire_pixel rep_time store tot n env f st = Inl (IOError, fst'))
   \<and> (\<not> c_useScanStage cfg
        \<and> 0 < fst (g_rep (c_geom cfg)) \<and> 0 < snd (g_rep (c_geom cfg)) \<and> 0 \<le> c_rep_time cfg
        \<and> acq_state st0 = RUNNING \<and> length (acq_complete st0) = 2 \<and> length (subscribed st0) = 2
        \<and> md_acq_date sem = Some 0 \<and> md_acq_date ccd = Some 0
        \<and> da_shape sem = [1, 1] \<and> md_pos sem = Some p \<and> md_pxs sem = Some q
        \<and> da_shape ccd = [Suc T, Suc S] \<and> md_pxs ccd = Some q' \<longrightarrow>
        ((\<forall>k < nat (fst (g_rep (c_geom cfg)) * snd (g_rep (c_geom cfg))). misses_at misses k \<le> 2) \<longrightarrow>
           (\<exists>img1 img2 st'.
              runAcquisition cfg (mock_env (c_rep_time cfg) sem ccd misses) [] st0
                = (Inr [img1, img2], st')
              \<and> acq_state st' = FINISHED))
      \<and> ((\<exists>k < nat (fst (g_rep (c_geom cfg)) * snd (g_rep (c_geom cfg))).
              3 \<le> misses_at misses k \<and> (\<forall>i < k. misses_at misses i \<le> 2)) \<longrightarrow>
           fst (runAcquisition cfg (mock_env (c_rep_time cfg) sem ccd misses) [] st0) = Inl IOError))"
proof (intro conjI impI)
  assume "acq_state (begin_attempt (env f) st) \<noteq> CANCELLED
      \<and> acq_complete (trigger_and_wait (env f) (begin_attempt (env f) st)) \<noteq> []
      \<and> acq_state (trigger_and_wait (env f) (begin_attempt (env f) st)) \<noteq> CANCELLED
      \<and> (\<not> last (acq_complete (trigger_and_wait (env f) (begin_attempt (env f) st)))
           \<or> t_elapsed (env f) < rep_time * 0.95)"
  then show "attempt rep_time store tot n (env f) st
        = Failed (trigger_and_wait (env f) (begin_attempt (env f) st)
                    \<lparr>warnings := warnings (trigger_and_wait (env f) (begin_attempt (env f) st)) + 1\<rparr>)"
    by (auto simp: attempt_def Let_def)
next
  assume a: "attempt rep_time store tot n (env f) st = Failed fst' \<and> f < 2"
  then show "acquire_pixel rep_time store tot n env f st
          = acquire_pixel rep_time store tot n env (f + 1) (restart_acquisition n fst')"
    by (subst acquire_pixel.simps) simp
  show "\<forall>i < length (subscribed fst').
            subscribed (restart_acquisition n fst') ! i = (i = length (subscribed fst') - 1)"
    by (simp add: restart_acquisition_def only_last_flags)
  show "acq_data (restart_acquisition n fst') = map (take n) (acq_data fst')"
    by (simp add: restart_acquisition_def)
  show "\<forall>ad \<in> set (acq_data (restart_acquisition n fst')). length ad \<le> n"
    by (simp add: restart_acquisition_def)
  show "slept (restart_acquisition n fst') = slept fst' @ [1]"
    by (simp add: restart_acquisition_def)
next
  assume "attempt rep_time store tot n (env f) st = Failed fst' \<and> 2 \<le> f"
  then show "acquire_pixel rep_time store tot n env f st = Inl (IOError, fst')"
    by (subst acquire_pixel.simps) simp
next
  assume h: "\<not> c_useScanStage cfg
        \<and> 0 < fst (g_rep (c_geom cfg)) \<and> 0 < snd (g_rep (c_geom cfg)) \<and> 0 \<le> c_rep_time cfg
        \<and> acq_state st0 = RUNNING \<and> length (acq_complete st0) = 2 \<and> length (subscribed st0) = 2
        \<and> md_acq_date sem = Some 0 \<and> md_acq_date ccd = Some 0
        \<and> da_shape sem = [1, 1] \<and> md_pos sem = Some p \<and> md_pxs sem = Some q
        \<and> da_shape ccd = [Suc T, Suc S] \<and> md_pxs ccd = Some q'"
  then have e: "0 \<le> (case md_acq_date sem of None \<Rightarrow> 0 | Some d \<Rightarrow> d)"
      "0 \<le> (case md_acq_date ccd of None \<Rightarrow> 0 | Some d \<Rightarrow> d)"
    by simp_all
  assume few: "\<forall>k < nat (fst (g_rep (c_geom cfg)) * snd (g_rep (c_geom cfg))). misses_at misses k \<le> 2"
  from h have "\<not> c_useScanStage cfg" "0 < fst (g_rep (c_geom cfg))" "0 < snd (g_rep (c_geom cfg))"
    "acq_state st0 = RUNNING" "length (acq_complete st0) = 2" "length (subscribed st0) = 2"
    "0 \<le> c_rep_time cfg"
    "da_shape sem = [1, 1]" "0 < (1::nat)" "0 < (1::nat)" "md_pos sem = Some p" "md_pxs sem = Some q"
    "da_shape ccd = [Suc T, Suc S]" "0 < Suc T" "0 < Suc S" "md_pxs ccd = Some q'"
    by simp_all
  from mock_run_ok [OF this(1-6) e this(7-16) few]
  show "\<exists>img1 img2 st'.
              runAcquisition cfg (mock_env (c_rep_time cfg) sem ccd misses) [] st0
                = (Inr [img1, img2], st')
              \<and> acq_state st' = FINISHED" .
next
  assume h: "\<not> c_useScanStage cfg
        \<and> 0 < fst (g_rep (c_geom cfg)) \<and> 0 < snd (g_rep (c_geom cfg)) \<and> 0 \<le> c_rep_time cfg
        \<and> acq_state st0 = RUNNING \<and> length (acq_complete st0) = 2 \<and> length (subscribed st0) = 2
        \<and> md_acq_date sem = Some 0 \<and> md_acq_date ccd = Some 0
        \<and> da_shape sem = [1, 1] \<and> md_pos sem = Some p \<and> md_pxs sem = Some q
        \<and> da_shape ccd = [Suc T, Suc S] \<and> md_pxs ccd = Some q'"
  then have e: "0 \<le> (case md_acq_date sem of None \<Rightarrow> 0 | Some d \<Rightarrow> d)"
      "0 \<le> (case md_acq_date ccd of None \<Rightarrow> 0 | Some d \<Rightarrow> d)"
    by simp_all
  assume "\<exists>k < nat (fst (g_rep (c_geom cfg)) * snd (g_rep (c_geom cfg))).
              3 \<le> misses_at misses k \<and> (\<forall>i < k. misses_at misses i \<le> 2)"
  then obtain k where k: "k < nat (fst (g_rep (c_geom cfg)) * snd (g_rep (c_geom cfg)))"
    and many: "3 \<le> misses_at misses k" and few: "\<forall>i < k. misses_at misses i \<le> 2"
    by blast
  from h have "\<not> c_useScanStage cfg" "0 < fst (g_rep (c_geom cfg))" "0 < snd (g_rep (c_geom cfg))"
    "acq_state st0 = RUNNING" "length (acq_complete st0) = 2" "length (subscribed st0) = 2"
    "0 \<le> c_rep_time cfg" "md_pos sem = Some p"
    by simp_all
  from mock_run_fail [OF this(1-6) e this(7,8) k few many]
  show "fst (runAcquisition cfg (mock_env (c_rep_time cfg) sem ccd misses) [] st0) = Inl IOError" .
qed

theorem C2_retry_witness:
  "attempt 1 (store_beam (1, 1)) 2 0
      (mock_env 1
         \<lparr>da_shape = [1, 1], da_values = [3], md_pos = Some (0, 0), md_pxs = Some (1, 1),
        md_acq_date = Some 0, md_dwell = None\<rparr>
         \<lparr>da_shape = [1, 2], da_values = [8, 9], md_pos = None, md_pxs = Some (1, 1),
        md_acq_date = Some 0, md_dwell = None\<rparr> [2] 0 0)
      \<lparr>acq_state = RUNNING, acq_complete = [False, False], acq_data = [[], []],
       acq_min_date = None, acq_done = False, subscribed = [False, True],
       synchronized = [False, True], raw = [], prog = \<lparr>prog_sum = 0, future_end = 0\<rparr>,
       translation = (- 1, 0), stage_position = (0, 0), stage_moves = [], slept = [],
       done_waits = [], notified = 0, warnings = 0\<rparr>
     = Failed
      \<lparr>acq_state = RUNNING, acq_complete = [True, False],
       acq_data = [[\<lparr>da_shape = [1, 1], da_values = [3], md_pos = Some (0, 0), md_pxs = Some (1, 1),
        md_acq_date = Some 0, md_dwell = None\<rparr>], []],
       acq_min_date = Some 0, acq_done = False, subscribed = [True, True],
       synchronized = [False, True], raw = [], prog = \<lparr>prog_sum = 0, future_end = 0\<rparr>,
       translation = (- 1, 0), stage_position = (0, 0), stage_moves = [], slept = [1 / 100],
       done_waits = [], notified = 1, warnings = 1\<rparr>
   \<and> acquire_pixel 1 (store_beam (1, 1)) 2 0
        (mock_env 1
           \<lparr>da_shape = [1, 1], da_values = [3], md_pos = Some (0, 0), md_pxs = Some (1, 1),
        md_acq_date = Some 0, md_dwell = None\<rparr>
           \<lparr>da_shape = [1, 2], da_values = [8, 9], md_pos = None, md_pxs = Some (1, 1),
        md_acq_date = Some 0, md_dwell = None\<rparr> [2] 0) 0
        \<lparr>acq_state = RUNNING, acq_complete = [False, False], acq_data = [[], []],
       acq_min_date = None, acq_done = False, subscribed = [False, True],
       synchronized = [False, True], raw = [], prog = \<lparr>prog_sum = 0, future_end = 0\<rparr>,
       translation = (- 1, 0), stage_position = (0, 0), stage_moves = [], slept = [],
       done_waits = [], notified = 0, warnings = 0\<rparr>
     = acquire_pixel 1 (store_beam (1, 1)) 2 0
        (mock_env 1
           \<lparr>da_shape = [1, 1], da_values = [3], md_pos = Some (0, 0), md_pxs = Some (1, 1),
        md_acq_date = Some 0, md_dwell = None\<rparr>
           \<lparr>da_shape = [1, 2], da_values = [8, 9], md_pos = None, md_pxs = Some (1, 1),
        md_acq_date = Some 0, md_dwell = None\<rparr> [2] 0) (0 + 1)
        \<lparr>acq_state = RUNNING, acq_complete = [True, False], acq_data = [[], []],
       acq_min_date = Some 0, acq_done = False, subscribed = [False, True],
       synchronized = [False, True], raw = [], prog = \<lparr>prog_sum = 0, future_end = 0\<rparr>,
       translation = (- 1, 0), stage_position = (0, 0), stage_moves = [], slept = [1 / 100, 1],
       done_waits = [], notified = 1, warnings = 1\<rparr>
   \<and> (\<exists>img1 img2 st'.
         runAcquisition
           \<lparr>c_geom = \<lparr>g_roi = (0, 0, 1, 1), g_rep = (2, 1), g_eshape = (4, 2), g_epxs = (1, 1)\<rparr>,
       c_rep_time = 1, c_trans_rng = ((- 2, - 1), (2, 1)), c_useScanStage = False,
       c_sstage = None\<rparr>
           (mock_env 1
              \<lparr>da_shape = [1, 1], da_values = [3], md_pos = Some (0, 0), md_pxs = Some (1, 1),
        md_acq_date = Some 0, md_dwell = None\<rparr>
              \<lparr>da_shape = [1, 2], da_values = [8, 9], md_pos = None, md_pxs = Some (1, 1),
        md_acq_date = Some 0, md_dwell = None\<rparr> [0, 2]) []
           \<lparr>acq_state = RUNNING, acq_complete = [False, False], acq_data = [[], []],
       acq_min_date = None, acq_done = False, subscribed = [False, True],
       synchronized = [False, True], raw = [], prog = \<lparr>prog_sum = 0, future_end = 0\<rparr>,
       translation = (- 1, 0), stage_position = (0, 0), stage_moves = [], slept = [],
       done_waits = [], notified = 0, warnings = 0\<rparr>
         = (Inr [img1, img2], st') \<and> acq_state st' = FINISHED)
   \<and> fst (runAcquisition
           \<lparr>c_geom = \<lparr>g_roi = (0, 0, 1, 1), g_rep = (2, 1), g_eshape = (4, 2), g_epxs = (1, 1)\<rparr>,
       c_rep_time = 1, c_trans_rng = ((- 2, - 1), (2, 1)), c_useScanStage = False,
       c_sstage = None\<rparr>
           (mock_env 1
              \<lparr>da_shape = [1, 1], da_values = [3], md_pos = Some (0, 0), md_pxs = Some (1, 1),
        md_acq_date = Some 0, md_dwell = None\<rparr>
              \<lparr>da_shape = [1, 2], da_values = [8, 9], md_pos = None, md_pxs = Some (1, 1),
        md_acq_date = Some 0, md_dwell = None\<rparr> [0, 3]) []
           \<lparr>acq_state = RUNNING, acq_complete = [False, False], acq_data = [[], []],
       acq_min_date = None, acq_done = False, subscribed = [False, True],
       synchronized = [False, True], raw = [], prog = \<lparr>prog_sum = 0, future_end = 0\<rparr>,
       translation = (- 1, 0), stage_position = (0, 0), stage_moves = [], slept = [],
       done_waits = [], notified = 0, warnings = 0\<rparr>) = Inl IOError"
proof -
  let ?sem = "\<lparr>da_shape = [1, 1], da_values = [3], md_pos = Some (0, 0), md_pxs = Some (1, 1),
        md_acq_date = Some 0, md_dwell = None\<rparr>"
  let ?ccd = "\<lparr>da_shape = [1, 2], da_values = [8, 9], md_pos = None, md_pxs = Some (1, 1),
        md_acq_date = Some 0, md_dwell = None\<rparr>"
  let ?cfg = "\<lparr>c_geom = \<lparr>g_roi = (0, 0, 1, 1), g_rep = (2, 1), g_eshape = (4, 2), g_epxs = (1, 1)\<rparr>,
       c_rep_time = 1, c_trans_rng = ((- 2, - 1), (2, 1)), c_useScanStage = False,
       c_sstage = None\<rparr>"
  let ?st = "\<lparr>acq_state = RUNNING, acq_complete = [False, False], acq_data = [[], []],
       acq_min_date = None, acq_done = False, subscribed = [False, True],
       synchronized = [False, True], raw = [], prog = \<lparr>prog_sum = 0, future_end = 0\<rparr>,
       translation = (- 1, 0), stage_position = (0, 0), stage_moves = [], slept = [],
       done_waits = [], notified = 0, warnings = 0\<rparr>"
  let ?x = "\<lparr>acq_state = RUNNING, acq_complete = [True, False],
       acq_data = [[\<lparr>da_shape = [1, 1], da_values = [3], md_pos = Some (0, 0), md_pxs = Some (1, 1),
        md_acq_date = Some 0, md_dwell = None\<rparr>], []],
       acq_min_date = Some 0, acq_done = False, subscribed = [True, True],
       synchronized = [False, True], raw = [], prog = \<lparr>prog_sum = 0, future_end = 0\<rparr>,
       translation = (- 1, 0), stage_position = (0, 0), stage_moves = [], slept = [1 / 100],
       done_waits = [], notified = 1, warnings = 1\<rparr>"
  let ?y = "\<lparr>acq_state = RUNNING, acq_complete = [True, False], acq_data = [[], []],
       acq_min_date = Some 0, acq_done = False, subscribed = [False, True],
       synchronized = [False, True], raw = [], prog = \<lparr>prog_sum = 0, future_end = 0\<rparr>,
       translation = (- 1, 0), stage_position = (0, 0), stage_moves = [], slept = [1 / 100, 1],
       done_waits = [], notified = 1, warnings = 1\<rparr>"
  have a: "attempt 1 (store_beam (1, 1)) 2 0 (mock_env 1 ?sem ?ccd [2] 0 0) ?st = Failed ?x"
    by (simp add: attempt_def begin_attempt_def trigger_and_wait_def run_events_def mock_env_def
          misses_at_def onData_def too_early_def all_but_last_def Let_def)
  have r: "restart_acquisition 0 ?x = ?y"
    by (simp add: restart_acquisition_def only_last_def)
  have lt: "(0::nat) < 2" by simp
  have "acquire_pixel 1 (store_beam (1, 1)) 2 0 (mock_env 1 ?sem ?ccd [2] 0) 0 ?st
      = acquire_pixel 1 (store_beam (1, 1)) 2 0 (mock_env 1 ?sem ?ccd [2] 0) (0 + 1)
          (restart_acquisition 0 ?x)"
    using C2_retry [where rep_time = 1 and store = "store_beam (1, 1)" and tot = 2 and n = 0
        and env = "mock_env 1 ?sem ?ccd [2] 0" and f = 0 and st = ?st and fst' = ?x
        and cfg = ?cfg and st0 = ?st and sem = ?sem and ccd = ?ccd and misses = "[0, 2]"
        and p = "(0, 0)" and q = "(1, 1)" and q' = "(1, 1)" and T = 0 and S = 1,
            THEN conjunct2, THEN conjunct1, THEN mp, OF conjI [OF a lt], THEN conjunct1] .
  then have b: "acquire_pixel 1 (store_beam (1, 1)) 2 0 (mock_env 1 ?sem ?ccd [2] 0) 0 ?st
      = acquire_pixel 1 (store_beam (1, 1)) 2 0 (mock_env 1 ?sem ?ccd [2] 0) (0 + 1) ?y"
    by (simp only: r)
  have h: "\<not> c_useScanStage ?cfg
        \<and> 0 < fst (g_rep (c_geom ?cfg)) \<and> 0 < snd (g_rep (c_geom ?cfg)) \<and> 0 \<le> c_rep_time ?cfg
        \<and> acq_state ?st = RUNNING \<and> length (acq_complete ?st) = 2 \<and> length (subscribed ?st) = 2
        \<and> md_acq_date ?sem = Some 0 \<and> md_acq_date ?ccd = Some 0
        \<and> da_shape ?sem = [1, 1] \<and> md_pos ?sem = Some (0, 0) \<and> md_pxs ?sem = Some (1, 1)
        \<and> da_shape ?ccd = [Suc 0, Suc 1] \<and> md_pxs ?ccd = Some (1, 1)"
    by simp
  have n: "nat (fst (g_rep (c_geom ?cfg)) * snd (g_rep (c_geom ?cfg))) = 2" by simp
  have few: "\<forall>k < nat (fst (g_rep (c_geom ?cfg)) * snd (g_rep (c_geom ?cfg))). misses_at [0, 2] k \<le> 2"
    unfolding n by (auto simp: misses_at_def less_Suc_eq numeral_2_eq_2)
  have many: "\<exists>k < nat (fst (g_rep (c_geom ?cfg)) * snd (g_rep (c_geom ?cfg))).
              3 \<le> misses_at [0, 3] k \<and> (\<forall>i < k. misses_at [0, 3] i \<le> 2)"
    unfolding n by (rule exI [of _ 1]) (simp add: misses_at_def)
  have c: "\<exists>img1 img2 st'.
         runAcquisition ?cfg (mock_env (c_rep_time ?cfg) ?sem ?ccd [0, 2]) [] ?st
         = (Inr [img1, img2], st') \<and> acq_state st' = FINISHED"
    using C2_retry [where rep_time = 1 and store = "store_beam (1, 1)" and tot = 2 and n = 0
        and env = "mock_env 1 ?sem ?ccd [2] 0" and f = 0 and st = ?st and fst' = ?x
        and cfg = ?cfg and st0 = ?st and sem = ?sem and ccd = ?ccd and misses = "[0, 2]"
        and p = "(0, 0)" and q = "(1, 1)" and q' = "(1, 1)" and T = 0 and S = 1,
            THEN conjunct2, THEN conjunct2, THEN conjunct2, THEN mp, OF h, THEN conjunct1,
             THEN mp, OF few] .
  have d: "fst (runAcquisition ?cfg (mock_env (c_rep_time ?cfg) ?sem ?ccd [0, 3]) [] ?st) = Inl IOError"
    using C2_retry [where rep_time = 1 and store = "store_beam (1, 1)" and tot = 2 and n = 0
        and env = "mock_env 1 ?sem ?ccd [2] 0" and f = 0 and st = ?st and fst' = ?x
        and cfg = ?cfg and st0 = ?st and sem = ?sem and ccd = ?ccd and misses = "[0, 3]"
        and p = "(0, 0)" and q = "(1, 1)" and q' = "(1, 1)" and T = 0 and S = 1,
            THEN conjunct2, THEN conjunct2, THEN conjunct2, THEN mp, OF h, THEN conjunct2,
             THEN mp, OF many] .
  have e: "c_rep_time ?cfg = 1" by simp
  from c d have "(\<exists>img1 img2 st'.
         runAcquisition ?cfg (mock_env 1 ?sem ?ccd [0, 2]) [] ?st
         = (Inr [img1, img2], st') \<and> acq_state st' = FINISHED)
    \<and> fst (runAcquisition ?cfg (mock_env 1 ?sem ?ccd [0, 3]) [] ?st) = Inl IOError"
    by (simp only: e)
  with a b show ?thesis by (intro conjI) (erule conjunct1 | erule conjunct2 | assumption)+
qed

end
